theory Spec2Isabelle
  imports Main
begin

section \<open>Persisted layout (db.ts)\<close>

text \<open>
  Amounts are JavaScript numbers holding whole cents; they are modelled as unbounded
  integers. A \<^verbatim>\<open>Date\<close> is its millisecond count. A MongoDB collection is the list of
  its documents in insertion order: \<^verbatim>\<open>findOne\<close> returns the first match,
  \<^verbatim>\<open>updateOne\<close> rewrites the first match, \<^verbatim>\<open>insertOne\<close> appends.
\<close>

datatype TransactionType = PURCHASE | USAGE | DIRECT_USDC | REFUND | ADJUSTMENT

datatype TransactionStatus = PENDING | CONFIRMED | FAILED

record UserCredit =
  userId :: string
  balance :: int
  lifetimePurchased :: int
  lifetimeUsed :: int
  updatedAt :: int

text \<open>The \<^verbatim>\<open>metadata?: any\<close> field, with the keys the engine and the middleware write.
  A transaction's \<^verbatim>\<open>id\<close>, \<^verbatim>\<open>userId\<close> and \<^verbatim>\<open>type\<close> are \<open>txId\<close>, \<open>txUserId\<close> and
  \<open>txType\<close> below, as the plain names are taken.\<close>

record Metadata =
  requiredCost :: "int option"
  originalTxId :: "string option"
  reason :: "string option"
  metaAction :: "string option"

record CreditTransaction =
  txId :: string
  txUserId :: string
  txType :: TransactionType
  amount :: int
  txHash :: "string option"
  status :: TransactionStatus
  metadata :: "Metadata option"
  createdAt :: int

record Db =
  userCredits :: "UserCredit list"
  creditTransactions :: "CreditTransaction list"

definition findOne :: "('a \<Rightarrow> bool) \<Rightarrow> 'a list \<Rightarrow> 'a option" where
  "findOne P xs = find P xs"

fun updateOne :: "('a \<Rightarrow> bool) \<Rightarrow> ('a \<Rightarrow> 'a) \<Rightarrow> 'a list \<Rightarrow> 'a list" where
  "updateOne P f [] = []"
| "updateOne P f (x # xs) = (if P x then f x # xs else x # updateOne P f xs)"

text \<open>\<^verbatim>\<open>findOneAndUpdate\<close> with \<^verbatim>\<open>returnDocument: 'after'\<close>: the updated document, or
  \<^verbatim>\<open>null\<close> when no document matches the filter.\<close>

definition findOneAndUpdate ::
  "('a \<Rightarrow> bool) \<Rightarrow> ('a \<Rightarrow> 'a) \<Rightarrow> 'a list \<Rightarrow> ('a \<times> 'a list) option" where
  "findOneAndUpdate P f xs =
     (case find P xs of
        None \<Rightarrow> None
      | Some x \<Rightarrow> Some (f x, updateOne P f xs))"

definition insertOne :: "'a \<Rightarrow> 'a list \<Rightarrow> 'a list" where
  "insertOne x xs = xs @ [x]"

section \<open>The payment engine (payment/engine.ts)\<close>

datatype PaymentPreference = CREDITS_FIRST | PREF_DIRECT_USDC

record PaymentProcessResult =
  remainingCostCents :: int
  creditsDeducted :: int
  transactionId :: "string option"

definition usageRow :: "string \<Rightarrow> string \<Rightarrow> int \<Rightarrow> int \<Rightarrow> int \<Rightarrow> CreditTransaction" where
  "usageRow tid u deducted actionCostCents now =
     \<lparr> txId = tid, txUserId = u, txType = USAGE, amount = - deducted, txHash = None,
       status = CONFIRMED,
       metadata = Some \<lparr> requiredCost = Some actionCostCents, originalTxId = None,
                         reason = None, metaAction = None \<rparr>,
       createdAt = now \<rparr>"

definition deductUpdate :: "int \<Rightarrow> int \<Rightarrow> UserCredit \<Rightarrow> UserCredit" where
  "deductUpdate toDeduct now a =
     a\<lparr> balance := balance a - toDeduct, lifetimeUsed := lifetimeUsed a + toDeduct,
        updatedAt := now \<rparr>"

text \<open>
  \<^verbatim>\<open>processPayment\<close> run with no other caller in between its store operations.
  \<open>uuid k\<close> is the \<open>k\<close>-th draw of \<^verbatim>\<open>crypto.randomUUID()\<close> and \<open>now\<close> the clock.
  The retry of the source is the recursive call; a run that never returns is \<open>None\<close>.
\<close>

partial_function (option) processPayment ::
  "(nat \<Rightarrow> string) \<Rightarrow> int \<Rightarrow> int \<Rightarrow> string \<Rightarrow> PaymentPreference \<Rightarrow> Db
     \<Rightarrow> (PaymentProcessResult \<times> Db) option" where
  "processPayment uuid now actionCostCents u paymentPreference db =
     (if actionCostCents \<le> 0
      then Some (\<lparr> remainingCostCents = 0, creditsDeducted = 0, transactionId = None \<rparr>, db)
      else if paymentPreference = PREF_DIRECT_USDC
      then Some (\<lparr> remainingCostCents = actionCostCents, creditsDeducted = 0,
                   transactionId = None \<rparr>, db)
      else
        (case findOne (\<lambda>a. userId a = u) (userCredits db) of
           None \<Rightarrow> Some (\<lparr> remainingCostCents = actionCostCents, creditsDeducted = 0,
                           transactionId = None \<rparr>, db)
         | Some userCredit \<Rightarrow>
             if balance userCredit \<le> 0
             then Some (\<lparr> remainingCostCents = actionCostCents, creditsDeducted = 0,
                          transactionId = None \<rparr>, db)
             else
               (let toDeduct = min (balance userCredit) actionCostCents in
                case findOneAndUpdate (\<lambda>a. userId a = u \<and> toDeduct \<le> balance a)
                       (deductUpdate toDeduct now) (userCredits db) of
                  None \<Rightarrow>
                    processPayment (\<lambda>k. uuid (Suc k)) now actionCostCents u paymentPreference db
                | Some (updateResult, credits') \<Rightarrow>
                    Some (\<lparr> remainingCostCents = actionCostCents - toDeduct,
                            creditsDeducted = toDeduct,
                            transactionId = Some (uuid 0) \<rparr>,
                          db\<lparr> userCredits := credits',
                              creditTransactions :=
                                insertOne (usageRow (uuid 0) u toDeduct actionCostCents now)
                                  (creditTransactions db) \<rparr>))))"

definition refundRow :: "string \<Rightarrow> string \<Rightarrow> int \<Rightarrow> string \<Rightarrow> int \<Rightarrow> CreditTransaction" where
  "refundRow tid u refundAmount originalTransactionId now =
     \<lparr> txId = tid, txUserId = u, txType = REFUND, amount = refundAmount, txHash = None,
       status = CONFIRMED,
       metadata = Some \<lparr> requiredCost = None, originalTxId = Some originalTransactionId,
                         reason = Some ''USDC_FALLBACK_FAILED'', metaAction = None \<rparr>,
       createdAt = now \<rparr>"

definition metaOriginalTxId :: "CreditTransaction \<Rightarrow> string option" where
  "metaOriginalTxId t = (case metadata t of None \<Rightarrow> None | Some m \<Rightarrow> originalTxId m)"

definition refundCredits :: "string \<Rightarrow> int \<Rightarrow> string \<Rightarrow> Db \<Rightarrow> bool \<times> Db" where
  "refundCredits refundTxId now originalTransactionId db =
     (case findOne (\<lambda>t. txId t = originalTransactionId \<and> txType t = USAGE \<and> status t = CONFIRMED)
             (creditTransactions db) of
        None \<Rightarrow> (False, db)
      | Some originalTx \<Rightarrow>
          (case findOne (\<lambda>t. txType t = REFUND \<and> metaOriginalTxId t = Some originalTransactionId)
                  (creditTransactions db) of
             Some existingRefund \<Rightarrow> (False, db)
           | None \<Rightarrow>
               (let refundAmount = \<bar>amount originalTx\<bar> in
                (True,
                 db\<lparr> userCredits :=
                       updateOne (\<lambda>a. userId a = txUserId originalTx)
                         (\<lambda>a. a\<lparr> balance := balance a + refundAmount, updatedAt := now \<rparr>)
                         (userCredits db),
                     creditTransactions :=
                       insertOne (refundRow refundTxId (txUserId originalTx) refundAmount
                                    originalTransactionId now)
                         (creditTransactions db) \<rparr>))))"

definition purchaseRow :: "string \<Rightarrow> string \<Rightarrow> int \<Rightarrow> string \<Rightarrow> int \<Rightarrow> CreditTransaction" where
  "purchaseRow tid u amountCents h now =
     \<lparr> txId = tid, txUserId = u, txType = PURCHASE, amount = amountCents, txHash = Some h,
       status = CONFIRMED, metadata = None, createdAt = now \<rparr>"

text \<open>\<^verbatim>\<open>updateOne\<close> with \<^verbatim>\<open>upsert: true\<close>: a missing account is inserted with the
  filter's key, the \<^verbatim>\<open>$inc\<close> and \<^verbatim>\<open>$set\<close> fields and \<^verbatim>\<open>$setOnInsert\<close>.\<close>

definition upsertCredit :: "string \<Rightarrow> int \<Rightarrow> int \<Rightarrow> UserCredit list \<Rightarrow> UserCredit list" where
  "upsertCredit u amountCents now cs =
     (case find (\<lambda>a. userId a = u) cs of
        None \<Rightarrow> cs @ [\<lparr> userId = u, balance = amountCents, lifetimePurchased = amountCents,
                        lifetimeUsed = 0, updatedAt = now \<rparr>]
      | Some a0 \<Rightarrow>
          updateOne (\<lambda>a. userId a = u)
            (\<lambda>a. a\<lparr> balance := balance a + amountCents,
                    lifetimePurchased := lifetimePurchased a + amountCents,
                    updatedAt := now \<rparr>) cs)"

definition mintCredits :: "string \<Rightarrow> int \<Rightarrow> string \<Rightarrow> int \<Rightarrow> string \<Rightarrow> Db \<Rightarrow> bool \<times> Db" where
  "mintCredits tid now u amountCents h db =
     (case findOne (\<lambda>t. txHash t = Some h \<and> status t = CONFIRMED) (creditTransactions db) of
        Some existingDeposit \<Rightarrow> (True, db)
      | None \<Rightarrow>
          (True,
           db\<lparr> creditTransactions :=
                 insertOne (purchaseRow tid u amountCents h now) (creditTransactions db),
               userCredits := upsertCredit u amountCents now (userCredits db) \<rparr>))"

text \<open>\<^verbatim>\<open>user?.balance || 0\<close>: a missing account reads as 0.\<close>

definition getUserCredits :: "string \<Rightarrow> Db \<Rightarrow> int" where
  "getUserCredits u db =
     (case findOne (\<lambda>a. userId a = u) (userCredits db) of
        None \<Rightarrow> 0
      | Some user \<Rightarrow> balance user)"


section \<open>Concurrent callers of processPayment\<close>

text \<open>
  Between two store operations of one \<^verbatim>\<open>processPayment\<close> call any other call may run.
  A call is at one of its await points: before \<^verbatim>\<open>findOne\<close> (\<open>AtStart\<close>), before
  \<^verbatim>\<open>findOneAndUpdate\<close> with the amount it decided on (\<open>AtUpdate\<close>), before
  \<^verbatim>\<open>insertOne\<close> (\<open>AtInsert\<close>), or it has returned (\<open>Finished\<close>). Each store
  operation is atomic. A schedule names, tick by tick, the call that performs its next
  store operation, the UUID it would draw and the clock.
\<close>

datatype Pc =
    AtStart
  | AtUpdate string int
  | AtInsert string int
  | Finished PaymentProcessResult

record Call =
  callCost :: int
  callUser :: string
  callPref :: PaymentPreference
  pc :: Pc

record Tick =
  who :: nat
  drawn :: string
  clock :: int

definition callStep :: "Tick \<Rightarrow> Call \<Rightarrow> Db \<Rightarrow> Call \<times> Db" where
  "callStep t c db =
     (case pc c of
        AtStart \<Rightarrow>
          (if callCost c \<le> 0
           then (c\<lparr> pc := Finished \<lparr> remainingCostCents = 0, creditsDeducted = 0,
                                     transactionId = None \<rparr> \<rparr>, db)
           else if callPref c = PREF_DIRECT_USDC
           then (c\<lparr> pc := Finished \<lparr> remainingCostCents = callCost c, creditsDeducted = 0,
                                     transactionId = None \<rparr> \<rparr>, db)
           else
             (case findOne (\<lambda>a. userId a = callUser c) (userCredits db) of
                None \<Rightarrow>
                  (c\<lparr> pc := Finished \<lparr> remainingCostCents = callCost c, creditsDeducted = 0,
                                       transactionId = None \<rparr> \<rparr>, db)
              | Some userCredit \<Rightarrow>
                  if balance userCredit \<le> 0
                  then (c\<lparr> pc := Finished \<lparr> remainingCostCents = callCost c,
                                            creditsDeducted = 0, transactionId = None \<rparr> \<rparr>, db)
                  else (c\<lparr> pc := AtUpdate (drawn t) (min (balance userCredit) (callCost c)) \<rparr>,
                        db)))
      | AtUpdate tid toDeduct \<Rightarrow>
          (case findOneAndUpdate (\<lambda>a. userId a = callUser c \<and> toDeduct \<le> balance a)
                  (deductUpdate toDeduct (clock t)) (userCredits db) of
             None \<Rightarrow> (c\<lparr> pc := AtStart \<rparr>, db)
           | Some (updateResult, credits') \<Rightarrow>
               (c\<lparr> pc := AtInsert tid toDeduct \<rparr>, db\<lparr> userCredits := credits' \<rparr>))
      | AtInsert tid deducted \<Rightarrow>
          (c\<lparr> pc := Finished \<lparr> remainingCostCents = callCost c - deducted,
                                creditsDeducted = deducted, transactionId = Some tid \<rparr> \<rparr>,
           db\<lparr> creditTransactions :=
                 insertOne (usageRow tid (callUser c) deducted (callCost c) (clock t))
                   (creditTransactions db) \<rparr>)
      | Finished r \<Rightarrow> (c, db))"

definition sysStep :: "Db \<times> Call list \<Rightarrow> Tick \<Rightarrow> Db \<times> Call list" where
  "sysStep s t =
     (case s of (db, cs) \<Rightarrow>
        if who t < length cs
        then (case callStep t (cs ! who t) db of (c', db') \<Rightarrow> (db', cs[who t := c']))
        else (db, cs))"

definition runSchedule :: "Tick list \<Rightarrow> Db \<times> Call list \<Rightarrow> Db \<times> Call list" where
  "runSchedule sched s = foldl sysStep s sched"

text \<open>The ledger sums of one identity: confirmed usage (as a positive amount), confirmed
  credit-increasing rows, the balance held, and the deductions already taken from the
  balance whose USAGE row is not yet written.\<close>

definition usageTotal :: "string \<Rightarrow> Db \<Rightarrow> int" where
  "usageTotal u db =
     sum_list (map (\<lambda>t. if txUserId t = u \<and> txType t = USAGE \<and> status t = CONFIRMED
                         then - amount t else 0) (creditTransactions db))"

definition creditTotal :: "string \<Rightarrow> Db \<Rightarrow> int" where
  "creditTotal u db =
     sum_list (map (\<lambda>t. if txUserId t = u \<and> status t = CONFIRMED
                            \<and> (txType t = PURCHASE \<or> txType t = REFUND \<or> txType t = ADJUSTMENT)
                         then amount t else 0) (creditTransactions db))"

definition balanceTotal :: "string \<Rightarrow> Db \<Rightarrow> int" where
  "balanceTotal u db =
     sum_list (map (\<lambda>a. if userId a = u then balance a else 0) (userCredits db))"

definition pendingOf :: "string \<Rightarrow> Call \<Rightarrow> int" where
  "pendingOf u c =
     (case pc c of AtInsert tid d \<Rightarrow> (if callUser c = u then d else 0) | _ \<Rightarrow> 0)"

definition pendingTotal :: "string \<Rightarrow> Call list \<Rightarrow> int" where
  "pendingTotal u cs = sum_list (map (pendingOf u) cs)"

definition balancesNonNegative :: "Db \<Rightarrow> bool" where
  "balancesNonNegative db = list_all (\<lambda>a. 0 \<le> balance a) (userCredits db)"

text \<open>What holds of a call at each of its points: an amount it decided on is positive
  and at most its cost; a returned result reports a deduction between 0 and the cost and the
  rest of the cost as remaining.\<close>

definition callOk :: "Call \<Rightarrow> bool" where
  "callOk c =
     (case pc c of
        AtStart \<Rightarrow> True
      | AtUpdate tid d \<Rightarrow> 0 < d \<and> d \<le> callCost c
      | AtInsert tid d \<Rightarrow> 0 < d \<and> d \<le> callCost c
      | Finished r \<Rightarrow>
          0 \<le> creditsDeducted r \<and> creditsDeducted r \<le> max 0 (callCost c)
          \<and> remainingCostCents r = max 0 (callCost c) - creditsDeducted r)"

definition callsOk :: "Call list \<Rightarrow> bool" where
  "callsOk cs = list_all callOk cs"

section \<open>The negotiation price state (agent/negotiationAgent.ts)\<close>

text \<open>
  \<^verbatim>\<open>lib/zkVerifier\<close> is not among the sources. Its pricing functions are parameters
  of every function that calls them.
\<close>

record ZkVerifier =
  getStartingPrice :: "string \<Rightarrow> int"
  getFloorPrice :: "string \<Rightarrow> int"
  getNextPrice :: "string \<Rightarrow> int \<Rightarrow> int"

record PriceInfo =
  cents :: int
  round :: int
  negotiationAttempts :: int

record PricingEntry = PriceInfo +
  domain :: string
  topic :: "string option"

type_synonym PricingState = "string \<rightharpoonup> PricingEntry"

definition getCurrentPrice ::
  "ZkVerifier \<Rightarrow> string \<Rightarrow> string \<Rightarrow> PricingState \<Rightarrow> PriceInfo \<times> PricingState" where
  "getCurrentPrice zk walletAddress d ps =
     (case ps walletAddress of
        Some existing \<Rightarrow>
          (\<lparr> cents = cents existing, round = round existing,
             negotiationAttempts = negotiationAttempts existing \<rparr>, ps)
      | None \<Rightarrow>
          (let startingCents = getStartingPrice zk d in
           (\<lparr> cents = startingCents, round = 0, negotiationAttempts = 0 \<rparr>,
            ps(walletAddress \<mapsto> \<lparr> cents = startingCents, round = 0, negotiationAttempts = 0,
                                  domain = d, topic = None \<rparr>))))"

record UpdateResult =
  success :: bool
  resultCents :: int

definition updatePrice ::
  "ZkVerifier \<Rightarrow> string \<Rightarrow> int \<Rightarrow> PricingState \<Rightarrow> UpdateResult \<times> PricingState" where
  "updatePrice zk walletAddress newPriceCents ps =
     (case ps walletAddress of
        None \<Rightarrow> (\<lparr> success = False, resultCents = 10 \<rparr>, ps)
      | Some existing \<Rightarrow>
          (let floor = getFloorPrice zk (domain existing) in
           if newPriceCents < floor
           then (\<lparr> success = False, resultCents = floor \<rparr>, ps)
           else (\<lparr> success = True, resultCents = newPriceCents \<rparr>,
                 ps(walletAddress \<mapsto> existing\<lparr> cents := newPriceCents,
                                              round := round existing + 1 \<rparr>))))"

definition incrementNegotiationAttempts :: "string \<Rightarrow> PricingState \<Rightarrow> int \<times> PricingState" where
  "incrementNegotiationAttempts walletAddress ps =
     (case ps walletAddress of
        None \<Rightarrow> (0, ps)
      | Some existing \<Rightarrow>
          (let newAttempts = negotiationAttempts existing + 1 in
           (newAttempts, ps(walletAddress \<mapsto> existing\<lparr> negotiationAttempts := newAttempts \<rparr>))))"

definition setTopic :: "string \<Rightarrow> string \<Rightarrow> PricingState \<Rightarrow> PricingState" where
  "setTopic walletAddress tp ps =
     (case ps walletAddress of
        None \<Rightarrow> ps
      | Some existing \<Rightarrow> ps(walletAddress \<mapsto> existing\<lparr> topic := Some tp \<rparr>))"

definition getTopic :: "string \<Rightarrow> PricingState \<Rightarrow> string option" where
  "getTopic walletAddress ps =
     (case ps walletAddress of None \<Rightarrow> None | Some existing \<Rightarrow> topic existing)"

text \<open>
  The oracle's reply after \<^verbatim>\<open>parseAIResponse\<close>. \<open>Other\<close> is any action string outside
  the five named ones, which the \<^verbatim>\<open>switch\<close> sends to \<^verbatim>\<open>default\<close>. The reply's
  message only feeds the response text, which is not modelled.
\<close>

datatype Action = QuotePrice | Pushback | Discount | Floor | Chat | Other

record AIResponse =
  action :: Action
  suggestedPriceCents :: "int option"

datatype OracleReply = OracleThrew | Unparsable | Parsed AIResponse

datatype AgentError = MissingApiKey | OracleFailure

text \<open>
  \<^verbatim>\<open>runNegotiationAgent\<close>, as far as the pricing state and the returned price go.
  \<open>topicMatch\<close> is the topic that \<^verbatim>\<open>topicPattern\<close> extracts from the user's message
  (\<open>None\<close> when it does not match). The result is \<^verbatim>\<open>currentPrice.cents\<close> and the
  pricing state after the call; a throw leaves the state as it is at the throw.
\<close>

definition runNegotiationAgent ::
  "ZkVerifier \<Rightarrow> bool \<Rightarrow> string option \<Rightarrow> OracleReply \<Rightarrow> string \<Rightarrow> string \<Rightarrow> PricingState
     \<Rightarrow> (AgentError + int) \<times> PricingState" where
  "runNegotiationAgent zk apiKey topicMatch reply walletAddress d ps =
     (if \<not> apiKey then (Inl MissingApiKey, ps)
      else
        (case getCurrentPrice zk walletAddress d ps of (currentState, ps1) \<Rightarrow>
           (let floor = getFloorPrice zk d in
            case reply of
              OracleThrew \<Rightarrow> (Inl OracleFailure, ps1)
            | Unparsable \<Rightarrow> (Inr (cents currentState), ps1)
            | Parsed aiResponse \<Rightarrow>
                (case action aiResponse of
                   QuotePrice \<Rightarrow>
                     (Inr (cents currentState),
                      case topicMatch of
                        None \<Rightarrow> ps1
                      | Some extractedTopic \<Rightarrow> setTopic walletAddress extractedTopic ps1)
                 | Pushback \<Rightarrow>
                     (Inr (cents currentState),
                      snd (incrementNegotiationAttempts walletAddress ps1))
                 | Discount \<Rightarrow>
                     (let attempts = negotiationAttempts currentState in
                      if attempts = 0
                      then (Inr (cents currentState),
                            snd (incrementNegotiationAttempts walletAddress ps1))
                      else
                        (let ps2 = snd (incrementNegotiationAttempts walletAddress ps1);
                             nextPrice = getNextPrice zk d (cents currentState) in
                         if nextPrice < cents currentState
                         then (case updatePrice zk walletAddress nextPrice ps2 of
                                 (updateResult, ps3) \<Rightarrow>
                                   if success updateResult then (Inr nextPrice, ps3)
                                   else (Inr (cents currentState), ps3))
                         else (Inr floor, ps2)))
                 | Floor \<Rightarrow>
                     (let ps2 = snd (incrementNegotiationAttempts walletAddress ps1) in
                      (Inr floor,
                       if floor < cents currentState
                       then snd (updatePrice zk walletAddress floor ps2)
                       else ps2))
                 | Chat \<Rightarrow> (Inr (cents currentState), ps1)
                 | Other \<Rightarrow> (Inr (cents currentState), ps1)))))"

text \<open>The operations the module exports on the pricing state, and runs of them.\<close>

datatype PricingOp =
    OpGetCurrentPrice string string
  | OpUpdatePrice string int
  | OpIncrement string
  | OpSetTopic string string
  | OpAgent bool "string option" OracleReply string string

fun applyOp :: "ZkVerifier \<Rightarrow> PricingState \<Rightarrow> PricingOp \<Rightarrow> PricingState" where
  "applyOp zk ps (OpGetCurrentPrice w d) = snd (getCurrentPrice zk w d ps)"
| "applyOp zk ps (OpUpdatePrice w p) = snd (updatePrice zk w p ps)"
| "applyOp zk ps (OpIncrement w) = snd (incrementNegotiationAttempts w ps)"
| "applyOp zk ps (OpSetTopic w tp) = setTopic w tp ps"
| "applyOp zk ps (OpAgent apiKey topicMatch reply w d) =
     snd (runNegotiationAgent zk apiKey topicMatch reply w d ps)"

definition applyOps :: "ZkVerifier \<Rightarrow> PricingOp list \<Rightarrow> PricingState \<Rightarrow> PricingState" where
  "applyOps zk ops ps = foldl (applyOp zk) ps ops"

fun isUpdatePrice :: "PricingOp \<Rightarrow> bool" where
  "isUpdatePrice (OpUpdatePrice w p) = True"
| "isUpdatePrice _ = False"

definition aboveFloor :: "ZkVerifier \<Rightarrow> PricingState \<Rightarrow> bool" where
  "aboveFloor zk ps = (\<forall>w e. ps w = Some e \<longrightarrow> getFloorPrice zk (domain e) \<le> cents e)"

text \<open>\<open>notRaised ps ps'\<close>: every identity priced in \<open>ps\<close> is still priced in \<open>ps'\<close>,
  at no higher a price and for the same domain.\<close>

definition notRaised :: "PricingState \<Rightarrow> PricingState \<Rightarrow> bool" where
  "notRaised ps ps' =
     (\<forall>w e. ps w = Some e \<longrightarrow> (\<exists>e'. ps' w = Some e' \<and> cents e' \<le> cents e \<and> domain e' = domain e))"

text \<open>Modelled from the spec: \<^verbatim>\<open>lib/zkVerifier\<close> is missing; this is the tier of the
  spec's example, start 10, floor 5, discount schedule 10, 7, 5, for every domain. The next
  price is the first strictly lower price of the schedule, or the floor when none remains.\<close>

definition exampleTier :: ZkVerifier where
  "exampleTier =
     \<lparr> getStartingPrice = (\<lambda>d. 10),
       getFloorPrice = (\<lambda>d. 5),
       getNextPrice = (\<lambda>d p. case find (\<lambda>q. q < p) [10, 7, 5] of None \<Rightarrow> 5 | Some q \<Rightarrow> q) \<rparr>"


section \<open>The payment middleware (payment/middleware.ts)\<close>

text \<open>The parts of the HTTP request the middleware reads: the \<^verbatim>\<open>x-wallet-address\<close>,
  \<^verbatim>\<open>x-domain\<close> and \<^verbatim>\<open>payment-authorization\<close> headers and the body's
  \<^verbatim>\<open>walletAddress\<close>, \<^verbatim>\<open>domain\<close> and \<^verbatim>\<open>useCreditsFirst\<close>.\<close>

record Request =
  headerWalletAddress :: "string option"
  bodyWalletAddress :: "string option"
  headerDomain :: "string option"
  bodyDomain :: "string option"
  useCreditsFirst :: "bool option"
  paymentAuthorization :: "string option"

text \<open>JavaScript's \<^verbatim>\<open>a || b\<close> on optional strings: a missing or empty \<open>a\<close> is falsy.\<close>

definition orElse :: "string option \<Rightarrow> string option \<Rightarrow> string option" where
  "orElse a b = (case a of None \<Rightarrow> b | Some s \<Rightarrow> if s = [] then b else Some s)"

text \<open>What the x402 resource server and the CDP client answer; both are external.
  \<open>payTo = None\<close> stands for a throw of \<^verbatim>\<open>getPayTo\<close>, which the middleware answers
  with status 500. \<open>settleSuccess\<close> is \<^verbatim>\<open>settlement.success\<close>; \<open>Payment\<close> is
  \<^verbatim>\<open>req.payment\<close>. \<open>PaymentRequired st d r\<close> is the challenge sent with status
  \<open>st\<close>, \<^verbatim>\<open>creditsDeducted\<close> \<open>d\<close> and \<^verbatim>\<open>remainingRequiredCents\<close> \<open>r\<close>;
  \<open>SettlementFailed\<close> is the 402 sent when \<^verbatim>\<open>processSettlement\<close> fails.\<close>

datatype HTTPProcessResult = PaymentError int | PaymentVerified | NoPaymentRequired

record SettleResponse =
  settleSuccess :: bool
  transaction :: "string option"

record X402 =
  payTo :: "string option"
  processHTTPRequest :: HTTPProcessResult
  processSettlement :: SettleResponse

record Payment =
  paymentCreditsDeducted :: int
  usdcPaid :: int
  paymentTransactionId :: "string option"

datatype Outcome =
    Status400
  | NextWith "Payment option"
  | PaymentRequired int int int
  | SettlementFailed
  | Status500

text \<open>\<^verbatim>\<open>findOne(filter, { sort: { createdAt: -1 } })\<close>: the matching row with the
  greatest \<^verbatim>\<open>createdAt\<close> (the earliest inserted one among equals).\<close>

fun newest :: "CreditTransaction list \<Rightarrow> CreditTransaction option" where
  "newest [] = None"
| "newest (t # ts) =
     (case newest ts of
        None \<Rightarrow> Some t
      | Some t' \<Rightarrow> if createdAt t < createdAt t' then Some t' else Some t)"

definition latestUsage :: "string \<Rightarrow> CreditTransaction list \<Rightarrow> CreditTransaction option" where
  "latestUsage walletAddress txs =
     newest (filter (\<lambda>t. txUserId t = walletAddress \<and> txType t = USAGE) txs)"

definition fallbackRow :: "string \<Rightarrow> string \<Rightarrow> int \<Rightarrow> string option \<Rightarrow> int \<Rightarrow> CreditTransaction" where
  "fallbackRow tid walletAddress remaining h now =
     \<lparr> txId = tid, txUserId = walletAddress, txType = DIRECT_USDC, amount = remaining,
       txHash = h, status = CONFIRMED,
       metadata = Some \<lparr> requiredCost = None, originalTxId = None, reason = None,
                         metaAction = Some ''x402_fallback'' \<rparr>,
       createdAt = now \<rparr>"

text \<open>The first half of the middleware: what is deducted now or recovered from the ledger.
  The result is \<open>(remainingCostCents, creditsDeducted, transactionId, db)\<close>.\<close>

definition creditPhase ::
  "(nat \<Rightarrow> string) \<Rightarrow> int \<Rightarrow> bool \<Rightarrow> int \<Rightarrow> string \<Rightarrow> PaymentPreference \<Rightarrow> Db
     \<Rightarrow> (int \<times> int \<times> string option \<times> Db) option" where
  "creditPhase uuid now isSettling actionCost walletAddress paymentPref db =
     (if \<not> isSettling
      then (case processPayment uuid now actionCost walletAddress paymentPref db of
              None \<Rightarrow> None
            | Some (result, db1) \<Rightarrow>
                Some (remainingCostCents result, creditsDeducted result,
                      transactionId result, db1))
      else (case latestUsage walletAddress (creditTransactions db) of
              None \<Rightarrow> Some (actionCost, 0, None, db)
            | Some latestTx \<Rightarrow>
                if now - createdAt latestTx < 300000
                then Some (actionCost - (- amount latestTx), - amount latestTx,
                           Some (txId latestTx), db)
                else Some (actionCost, 0, None, db)))"

text \<open>What a resumed request is to recover from the rows \<open>txs\<close> of the ledger, as
  \<open>(residual, deducted, transaction id)\<close>: when the wallet has a USAGE row younger than
  300000 ms, the amounts of a USAGE row of the wallet that no other of its USAGE rows is
  newer than; otherwise nothing deducted and the whole price as residual.\<close>

definition recoveredFrom ::
  "int \<Rightarrow> int \<Rightarrow> string \<Rightarrow> CreditTransaction list \<Rightarrow> int \<times> int \<times> string option \<Rightarrow> bool" where
  "recoveredFrom now price walletAddress txs rec =
     (if \<exists>t \<in> set txs. txUserId t = walletAddress \<and> txType t = USAGE
                          \<and> now - createdAt t < 300000
      then \<exists>t \<in> set txs. txUserId t = walletAddress \<and> txType t = USAGE
                  \<and> (\<forall>t' \<in> set txs. txUserId t' = walletAddress \<and> txType t' = USAGE
                         \<longrightarrow> createdAt t' \<le> createdAt t)
                  \<and> rec = (price - (- amount t), - amount t, Some (txId t))
      else rec = (price, 0, None))"

text \<open>\<^verbatim>\<open>requirePayment\<close>: \<open>uuid\<close> feeds the engine, \<open>rowId\<close> is the middleware's own draw of
  \<^verbatim>\<open>crypto.randomUUID()\<close>, \<open>now\<close> the clock. The store and the pricing state are passed
  in and returned. A wallet address that is missing or the empty string is falsy and is
  answered 400 before any pricing or ledger access.\<close>

definition requirePayment ::
  "ZkVerifier \<Rightarrow> X402 \<Rightarrow> (nat \<Rightarrow> string) \<Rightarrow> string \<Rightarrow> int \<Rightarrow> Request \<Rightarrow> Db \<times> PricingState
     \<Rightarrow> (Outcome \<times> Db \<times> PricingState) option" where
  "requirePayment zk x uuid rowId now req w =
     (case w of (db, ps) \<Rightarrow>
     (case orElse (headerWalletAddress req) (bodyWalletAddress req) of
        None \<Rightarrow> Some (Status400, db, ps)
      | Some walletAddress \<Rightarrow>
          if walletAddress = [] then Some (Status400, db, ps)
          else
          (let d = (case orElse (orElse (headerDomain req) (bodyDomain req)) (Some ''unknown'') of
                      None \<Rightarrow> ''unknown'' | Some dm \<Rightarrow> dm);
               isSettling = (orElse (paymentAuthorization req) None \<noteq> None) in
           case getCurrentPrice zk walletAddress d ps of (state, ps1) \<Rightarrow>
             (let actionCost = cents state;
                  paymentPref = (if useCreditsFirst req \<noteq> Some False
                                 then CREDITS_FIRST else PREF_DIRECT_USDC) in
              case creditPhase uuid now isSettling actionCost walletAddress paymentPref db of
                None \<Rightarrow> None
              | Some (remaining, deducted, usageTxId, db1) \<Rightarrow>
                  if remaining \<le> 0 \<and> \<not> isSettling
                  then Some (NextWith (Some \<lparr> paymentCreditsDeducted = deducted, usdcPaid = 0,
                                              paymentTransactionId = usageTxId \<rparr>),
                             db1, ps1)
                  else
                    (case payTo x of
                       None \<Rightarrow> Some (Status500, db1, ps1)
                     | Some payee \<Rightarrow>
                         (case processHTTPRequest x of
                            PaymentError st \<Rightarrow>
                              Some (PaymentRequired st deducted remaining, db1, ps1)
                          | PaymentVerified \<Rightarrow>
                              (let settlement = processSettlement x in
                               if \<not> settleSuccess settlement
                               then Some (SettlementFailed, db1, ps1)
                               else
                                 Some (NextWith
                                         (Some \<lparr> paymentCreditsDeducted = deducted,
                                                 usdcPaid = remaining,
                                                 paymentTransactionId =
                                                   orElse (transaction settlement)
                                                     usageTxId \<rparr>),
                                       db1\<lparr> creditTransactions :=
                                             insertOne
                                               (fallbackRow
                                                  (case orElse usageTxId None of
                                                     None \<Rightarrow> rowId | Some i \<Rightarrow> i)
                                                  walletAddress remaining
                                                  (orElse (transaction settlement) None) now)
                                               (creditTransactions db1) \<rparr>,
                                       ps1))
                          | NoPaymentRequired \<Rightarrow> Some (NextWith None, db1, ps1)))))))"

section \<open>Verification of an external transfer (verifyTransaction)\<close>

datatype ReceiptStatus = StatusSuccess | StatusReverted

text \<open>A log of the receipt. \<open>logData\<close> is \<^verbatim>\<open>BigInt(log.data)\<close>, \<open>None\<close> when that throws.
  \<open>txFrom\<close> and \<open>txValue\<close> are the transaction's \<^verbatim>\<open>from\<close> and \<^verbatim>\<open>value\<close>.\<close>

record Log =
  topics :: "string list"
  logData :: "nat option"

record TransactionReceipt =
  receiptStatus :: ReceiptStatus
  logs :: "Log list"

record Transaction =
  txFrom :: string
  txValue :: nat

definition transferSignature :: string where
  "transferSignature = ''0xddf252ad1be2c89b69c2b068fc378daa952ba7f163c4a11628f55a4df523b3ef''"

text \<open>\<^verbatim>\<open>toLowerCase\<close> on the letters A to Z; every other character is kept.\<close>

definition toLowerChar :: "char \<Rightarrow> char" where
  "toLowerChar c =
     (case map_of (zip ''ABCDEFGHIJKLMNOPQRSTUVWXYZ'' ''abcdefghijklmnopqrstuvwxyz'') c of
        None \<Rightarrow> c
      | Some l \<Rightarrow> l)"

definition toLowerCase :: "string \<Rightarrow> string" where
  "toLowerCase s = map toLowerChar s"

text \<open>\<^verbatim>\<open>`0x${log.topics[1]?.slice(26)}`\<close>: a missing second topic prints as
  \<^verbatim>\<open>undefined\<close>.\<close>

definition fromHex :: "Log \<Rightarrow> string" where
  "fromHex l =
     ''0x'' @ (case topics l of t0 # t1 # ts \<Rightarrow> drop 26 t1 | _ \<Rightarrow> ''undefined'')"

definition isTransferFrom :: "string \<Rightarrow> Log \<Rightarrow> bool" where
  "isTransferFrom userWallet l =
     ((case topics l of [] \<Rightarrow> False | t0 # ts \<Rightarrow> t0 = transferSignature)
      \<and> toLowerCase (fromHex l) = toLowerCase userWallet)"

text \<open>The loop over \<^verbatim>\<open>receipt.logs\<close>; \<open>None\<close> when \<^verbatim>\<open>BigInt(log.data)\<close> throws.\<close>

fun paidAmountRaw :: "string \<Rightarrow> Log list \<Rightarrow> nat \<Rightarrow> nat option" where
  "paidAmountRaw userWallet [] acc = Some acc"
| "paidAmountRaw userWallet (l # ls) acc =
     (if isTransferFrom userWallet l
      then (case logData l of
              None \<Rightarrow> None
            | Some v \<Rightarrow> paidAmountRaw userWallet ls (acc + v))
      else paidAmountRaw userWallet ls acc)"

text \<open>\<open>receipt\<close> and \<open>tx\<close> are what \<^verbatim>\<open>getTransactionReceipt\<close> and \<^verbatim>\<open>getTransaction\<close>
  return for the hash, \<open>None\<close> when the call throws; every throw is caught and answers
  \<^verbatim>\<open>false\<close>.\<close>

definition verifyTransaction ::
  "TransactionReceipt option \<Rightarrow> Transaction option \<Rightarrow> int \<Rightarrow> string \<Rightarrow> bool" where
  "verifyTransaction receipt tx expectedCents userWallet =
     (case receipt of
        None \<Rightarrow> False
      | Some r \<Rightarrow>
          if receiptStatus r \<noteq> StatusSuccess then False
          else
            (case tx of
               None \<Rightarrow> False
             | Some t \<Rightarrow>
                 if toLowerCase (txFrom t) \<noteq> toLowerCase userWallet then False
                 else
                   (case paidAmountRaw userWallet (logs r) 0 of
                      None \<Rightarrow> False
                    | Some paid \<Rightarrow>
                        (let expectedUnits = expectedCents * 10000 in
                         if expectedUnits \<le> int paid then True
                         else if 0 < txValue t then True
                         else False))))"


section \<open>Example states\<close>

definition db60 :: Db where
  "db60 = \<lparr> userCredits = [\<lparr> userId = ''0xabc'', balance = 60, lifetimePurchased = 60,
                              lifetimeUsed = 0, updatedAt = 0 \<rparr>],
            creditTransactions = [purchaseRow ''p1'' ''0xabc'' 60 ''0xfeed'' 0] \<rparr>"

text \<open>The store after the identity spent its 60 credits on an action costing 100.\<close>

definition dbAfterDeduct :: Db where
  "dbAfterDeduct =
     \<lparr> userCredits = [\<lparr> userId = ''0xabc'', balance = 0, lifetimePurchased = 60,
                        lifetimeUsed = 60, updatedAt = 1000 \<rparr>],
       creditTransactions = [purchaseRow ''p1'' ''0xabc'' 60 ''0xfeed'' 0,
                             usageRow ''u1'' ''0xabc'' 60 100 1000] \<rparr>"

text \<open>An identity that was quoted the starting price of the example tier, and four
  complaints in a row, each answered by the oracle with \<^verbatim>\<open>discount\<close> and a suggested
  price of 1.\<close>

definition quoted :: PricingState where
  "quoted = [''0xabc'' \<mapsto> \<lparr> cents = 10, round = 0, negotiationAttempts = 0, domain = ''x.com'',
                             topic = None \<rparr>]"

definition complaints :: "PricingOp list" where
  "complaints =
     replicate 4 (OpAgent True None (Parsed \<lparr> action = Discount, suggestedPriceCents = Some 1 \<rparr>)
                    ''0xabc'' ''x.com'')"

text \<open>An identity with 6 credits facing the example tier's price of 10, the store after
  the 6 credits were deducted, a first request, the same request resumed with a payment
  authorization, and two answers of the x402 server: a 402 challenge, and a verified
  payment whose settlement fails.\<close>

definition dbSix :: Db where
  "dbSix = \<lparr> userCredits = [\<lparr> userId = ''0xabc'', balance = 6, lifetimePurchased = 6,
                               lifetimeUsed = 0, updatedAt = 0 \<rparr>],
             creditTransactions = [purchaseRow ''p1'' ''0xabc'' 6 ''0xfeed'' 0] \<rparr>"

definition dbSixSpent :: Db where
  "dbSixSpent =
     \<lparr> userCredits = [\<lparr> userId = ''0xabc'', balance = 0, lifetimePurchased = 6,
                        lifetimeUsed = 6, updatedAt = 1000 \<rparr>],
       creditTransactions = [purchaseRow ''p1'' ''0xabc'' 6 ''0xfeed'' 0,
                             usageRow ''u1'' ''0xabc'' 6 10 1000] \<rparr>"

definition reqFirst :: Request where
  "reqFirst = \<lparr> headerWalletAddress = Some ''0xabc'', bodyWalletAddress = None,
                headerDomain = Some ''x.com'', bodyDomain = None, useCreditsFirst = None,
                paymentAuthorization = None \<rparr>"

definition reqResumed :: Request where
  "reqResumed = reqFirst\<lparr> paymentAuthorization := Some ''signed'' \<rparr>"

definition x402Challenge :: X402 where
  "x402Challenge = \<lparr> payTo = Some ''0xpayee'', processHTTPRequest = PaymentError 402,
                     processSettlement = \<lparr> settleSuccess = False, transaction = None \<rparr> \<rparr>"

definition x402SettleFails :: X402 where
  "x402SettleFails = \<lparr> payTo = Some ''0xpayee'', processHTTPRequest = PaymentVerified,
                       processSettlement = \<lparr> settleSuccess = False, transaction = None \<rparr> \<rparr>"

text \<open>A store with two USAGE rows of the identity, an older one of 10 and a newer one of
  6, and an x402 server whose settlement succeeds.\<close>

definition dbTwoUsages :: Db where
  "dbTwoUsages =
     \<lparr> userCredits = [\<lparr> userId = ''0xabc'', balance = 0, lifetimePurchased = 16,
                        lifetimeUsed = 16, updatedAt = 1000 \<rparr>],
       creditTransactions = [purchaseRow ''p1'' ''0xabc'' 16 ''0xfeed'' 0,
                             usageRow ''u0'' ''0xabc'' 10 10 500,
                             usageRow ''u1'' ''0xabc'' 6 10 1000] \<rparr>"

definition x402Settles :: X402 where
  "x402Settles = \<lparr> payTo = Some ''0xpayee'', processHTTPRequest = PaymentVerified,
                   processSettlement = \<lparr> settleSuccess = True,
                                         transaction = Some ''0xsettled'' \<rparr> \<rparr>"

text \<open>Two calls of 50 race for the 60 credits of one identity: both read the balance 60,
  the first deducts 50, the second loses its conditional update, reads 10 and deducts 10.\<close>

definition twoCalls :: "Call list" where
  "twoCalls = [\<lparr> callCost = 50, callUser = ''0xabc'', callPref = CREDITS_FIRST, pc = AtStart \<rparr>,
               \<lparr> callCost = 50, callUser = ''0xabc'', callPref = CREDITS_FIRST, pc = AtStart \<rparr>]"

definition race :: "Tick list" where
  "race = [\<lparr> who = 0, drawn = ''a1'', clock = 1 \<rparr>,
           \<lparr> who = Suc 0, drawn = ''b1'', clock = 2 \<rparr>,
           \<lparr> who = 0, drawn = ''a2'', clock = 3 \<rparr>,
           \<lparr> who = Suc 0, drawn = ''b2'', clock = 4 \<rparr>,
           \<lparr> who = Suc 0, drawn = ''b3'', clock = 5 \<rparr>,
           \<lparr> who = Suc 0, drawn = ''b4'', clock = 6 \<rparr>,
           \<lparr> who = 0, drawn = ''a3'', clock = 7 \<rparr>,
           \<lparr> who = Suc 0, drawn = ''b5'', clock = 8 \<rparr>]"

section \<open>Properties of the store operations\<close>

lemma find_conj_guard:
  "find P xs = Some x \<Longrightarrow> R x \<Longrightarrow> find (\<lambda>a. P a \<and> R a) xs = Some x"
  by (induction xs) (auto split: if_splits)

lemma find_updateOne_guard:
  "find P xs = Some x \<Longrightarrow> R x \<Longrightarrow> P (f x) \<Longrightarrow>
     find P (updateOne (\<lambda>a. P a \<and> R a) f xs) = Some (f x)"
  by (induction xs) (auto split: if_splits)

lemma find_updateOne_same:
  "find P xs = Some x \<Longrightarrow> P (f x) \<Longrightarrow> find P (updateOne P f xs) = Some (f x)"
  by (induction xs) (auto split: if_splits)

lemma updateOne_no_match: "find P xs = None \<Longrightarrow> updateOne P f xs = xs"
  by (induction xs) (auto split: if_splits)

lemma find_append_None: "find P xs = None \<Longrightarrow> find P (xs @ ys) = find P ys"
  by (induction xs) (auto split: if_splits)

lemma find_append_Some: "find P xs = Some x \<Longrightarrow> find P (xs @ ys) = Some x"
  by (induction xs) (auto split: if_splits)

lemma userId_deductUpdate [simp]: "userId (deductUpdate d now a) = userId a"
  by (simp add: deductUpdate_def)

lemma balance_deductUpdate [simp]: "balance (deductUpdate d now a) = balance a - d"
  by (simp add: deductUpdate_def)

section \<open>The engine, one caller at a time\<close>

text \<open>
  C7. Under \<^verbatim>\<open>CREDITS_FIRST\<close> and a cost \<open>c > 0\<close>, \<^verbatim>\<open>processPayment\<close> returns, and
  with \<open>b\<close> the balance that \<^verbatim>\<open>getUserCredits\<close> reads it reports
  \<open>creditsDeducted = min b c\<close> and \<open>remainingCostCents = c - min b c\<close> whenever
  \<open>b\<close> is not negative (a negative balance counts as 0).
\<close>

theorem processPayment_credits_first:
  assumes c: "0 < c"
  shows "\<exists>r db'. processPayment uuid now c u CREDITS_FIRST db = Some (r, db')
           \<and> creditsDeducted r = min (max 0 (getUserCredits u db)) c
           \<and> remainingCostCents r = c - min (max 0 (getUserCredits u db)) c
           \<and> (0 \<le> getUserCredits u db \<longrightarrow>
                creditsDeducted r = min (getUserCredits u db) c
              \<and> remainingCostCents r = c - min (getUserCredits u db) c)"
proof (cases "findOne (\<lambda>a. userId a = u) (userCredits db)")
  case None
  then show ?thesis using c
    by (subst processPayment.simps) (simp add: getUserCredits_def)
next
  case (Some a)
  show ?thesis
  proof (cases "balance a \<le> 0")
    case True
    then show ?thesis using c Some
      by (subst processPayment.simps) (auto simp add: getUserCredits_def)
  next
    case False
    let ?d = "min (balance a) c"
    have f: "find (\<lambda>a. userId a = u) (userCredits db) = Some a"
      using Some by (simp add: findOne_def)
    have "find (\<lambda>a. userId a = u \<and> ?d \<le> balance a) (userCredits db) = Some a"
      by (rule find_conj_guard [OF f]) simp
    then have "findOneAndUpdate (\<lambda>a. userId a = u \<and> ?d \<le> balance a) (deductUpdate ?d now)
                 (userCredits db)
               = Some (deductUpdate ?d now a,
                       updateOne (\<lambda>a. userId a = u \<and> ?d \<le> balance a) (deductUpdate ?d now)
                         (userCredits db))"
      by (simp add: findOneAndUpdate_def)
    then show ?thesis using c Some False
      by (subst processPayment.simps) (simp add: getUserCredits_def Let_def)
  qed
qed

text \<open>The instance of the claim: balance 60 and cost 100 give 60 deducted, 40 remaining.\<close>

theorem processPayment_credits_first_witness:
  "(0::int) < 100 \<and> (0::int) \<le> getUserCredits ''0xabc'' db60
   \<and> (\<exists>r db'. processPayment (\<lambda>k. ''u1'') 1000 100 ''0xabc'' CREDITS_FIRST db60 = Some (r, db')
         \<and> creditsDeducted r = 60 \<and> remainingCostCents r = 40)"
  using processPayment_credits_first [of 100 "\<lambda>k. ''u1''" 1000 "''0xabc''" db60]
  by (auto simp add: getUserCredits_def findOne_def db60_def)

lemma getUserCredits_upsert:
  "getUserCredits u (db\<lparr> userCredits := upsertCredit u a now (userCredits db) \<rparr>)
     = getUserCredits u db + a"
proof (cases "find (\<lambda>x. userId x = u) (userCredits db)")
  case None
  then show ?thesis
    by (simp add: getUserCredits_def findOne_def upsertCredit_def find_append_None)
next
  case (Some a0)
  have "find (\<lambda>x. userId x = u)
          (updateOne (\<lambda>x. userId x = u)
             (\<lambda>x. x\<lparr> balance := balance x + a, lifetimePurchased := lifetimePurchased x + a,
                     updatedAt := now \<rparr>) (userCredits db))
        = Some (a0\<lparr> balance := balance a0 + a, lifetimePurchased := lifetimePurchased a0 + a,
                     updatedAt := now \<rparr>)"
    using Some by (intro find_updateOne_same) (auto dest: find_Some_iff [THEN iffD1])
  then show ?thesis using Some
    by (simp add: getUserCredits_def findOne_def upsertCredit_def)
qed

lemma find_None_filter: "find P xs = None \<Longrightarrow> (\<And>x. Q x \<Longrightarrow> P x) \<Longrightarrow> filter Q xs = []"
  by (induction xs) (auto split: if_splits)

text \<open>
  C3. Two calls of \<^verbatim>\<open>mintCredits\<close> with the same transaction reference: both answer
  \<^verbatim>\<open>true\<close>, the second leaves the store as the first left it, and when no CONFIRMED
  row carried the reference before, the balance has grown by the amount once and exactly
  one CONFIRMED PURCHASE row carries the reference. A reference already on a CONFIRMED row
  makes the first call a no-op as well.
\<close>

theorem mintCredits_idempotent:
  "fst (mintCredits tid1 now1 u a h db) = True
   \<and> mintCredits tid2 now2 u a h (snd (mintCredits tid1 now1 u a h db))
       = (True, snd (mintCredits tid1 now1 u a h db))
   \<and> (findOne (\<lambda>t. txHash t = Some h \<and> status t = CONFIRMED) (creditTransactions db) = None \<longrightarrow>
        getUserCredits u (snd (mintCredits tid1 now1 u a h db)) = getUserCredits u db + a
      \<and> filter (\<lambda>t. txHash t = Some h \<and> status t = CONFIRMED \<and> txType t = PURCHASE)
           (creditTransactions (snd (mintCredits tid1 now1 u a h db)))
          = [purchaseRow tid1 u a h now1])
   \<and> (findOne (\<lambda>t. txHash t = Some h \<and> status t = CONFIRMED) (creditTransactions db) \<noteq> None \<longrightarrow>
        snd (mintCredits tid1 now1 u a h db) = db)"
proof (cases "find (\<lambda>t. txHash t = Some h \<and> status t = CONFIRMED) (creditTransactions db)")
  case (Some t)
  then show ?thesis by (simp add: mintCredits_def findOne_def)
next
  case None
  have row: "txHash (purchaseRow tid1 u a h now1) = Some h"
            "status (purchaseRow tid1 u a h now1) = CONFIRMED"
            "txType (purchaseRow tid1 u a h now1) = PURCHASE"
    by (simp_all add: purchaseRow_def)
  have first: "mintCredits tid1 now1 u a h db
     = (True, db\<lparr> creditTransactions :=
                    insertOne (purchaseRow tid1 u a h now1) (creditTransactions db),
                  userCredits := upsertCredit u a now1 (userCredits db) \<rparr>)"
    using None by (simp add: mintCredits_def findOne_def)
  have again: "find (\<lambda>t. txHash t = Some h \<and> status t = CONFIRMED)
                 (insertOne (purchaseRow tid1 u a h now1) (creditTransactions db))
               = Some (purchaseRow tid1 u a h now1)"
    using None row by (simp add: insertOne_def find_append_None)
  have flt: "filter (\<lambda>t. txHash t = Some h \<and> status t = CONFIRMED \<and> txType t = PURCHASE)
               (creditTransactions db) = []"
    by (rule find_None_filter [OF None]) simp
  have bal: "getUserCredits u
               (db\<lparr> creditTransactions :=
                      insertOne (purchaseRow tid1 u a h now1) (creditTransactions db),
                    userCredits := upsertCredit u a now1 (userCredits db) \<rparr>)
             = getUserCredits u db + a"
    using getUserCredits_upsert [where u = u and db = db and a = a and now = now1] by (simp add: getUserCredits_def)
  show ?thesis
    using None again flt row bal
    by (simp add: first mintCredits_def findOne_def insertOne_def)
qed

theorem mintCredits_idempotent_witness:
  "findOne (\<lambda>t. txHash t = Some ''tx1'' \<and> status t = CONFIRMED) (creditTransactions db60) = None
   \<and> getUserCredits ''0xabc'' (snd (mintCredits ''m1'' 5 ''0xabc'' 500 ''tx1'' db60)) = 560
   \<and> getUserCredits ''0xabc''
        (snd (mintCredits ''m2'' 9 ''0xabc'' 500 ''tx1''
                (snd (mintCredits ''m1'' 5 ''0xabc'' 500 ''tx1'' db60)))) = 560
   \<and> length (filter (\<lambda>t. txHash t = Some ''tx1'' \<and> status t = CONFIRMED \<and> txType t = PURCHASE)
        (creditTransactions
           (snd (mintCredits ''m2'' 9 ''0xabc'' 500 ''tx1''
                   (snd (mintCredits ''m1'' 5 ''0xabc'' 500 ''tx1'' db60)))))) = 1"
  using mintCredits_idempotent [where ?tid1.0 = "''m1''" and ?now1.0 = 5 and u = "''0xabc''"
          and a = 500 and h = "''tx1''" and db = db60 and ?tid2.0 = "''m2''" and ?now2.0 = 9]
  by (simp add: findOne_def db60_def purchaseRow_def getUserCredits_def)

text \<open>
  C4. \<^verbatim>\<open>refundCredits\<close> answers \<^verbatim>\<open>false\<close> and leaves the store unchanged when no
  CONFIRMED USAGE row has the id, or when a REFUND row already references it. A second
  call on the same id is always such a no-op, so the amount is credited and a REFUND row
  appended at most once. A call that answers \<^verbatim>\<open>true\<close> appends one REFUND row of the
  absolute usage amount and credits the account of the usage row, if there is one.
\<close>

theorem refundCredits_once:
  "(findOne (\<lambda>t. txId t = i \<and> txType t = USAGE \<and> status t = CONFIRMED) (creditTransactions db)
      = None \<longrightarrow> refundCredits rid now i db = (False, db))
   \<and> (findOne (\<lambda>t. txType t = REFUND \<and> metaOriginalTxId t = Some i) (creditTransactions db)
      \<noteq> None \<longrightarrow> refundCredits rid now i db = (False, db))
   \<and> refundCredits rid2 now2 i (snd (refundCredits rid now i db))
       = (False, snd (refundCredits rid now i db))
   \<and> (fst (refundCredits rid now i db) \<longrightarrow>
        (\<exists>orig. findOne (\<lambda>t. txId t = i \<and> txType t = USAGE \<and> status t = CONFIRMED)
                  (creditTransactions db) = Some orig
           \<and> creditTransactions (snd (refundCredits rid now i db))
               = creditTransactions db @ [refundRow rid (txUserId orig) \<bar>amount orig\<bar> i now]
           \<and> getUserCredits (txUserId orig) (snd (refundCredits rid now i db))
               = (if findOne (\<lambda>a. userId a = txUserId orig) (userCredits db) = None then 0
                  else getUserCredits (txUserId orig) db + \<bar>amount orig\<bar>)))"
proof (cases "find (\<lambda>t. txId t = i \<and> txType t = USAGE \<and> status t = CONFIRMED) (creditTransactions db)")
  case None
  then show ?thesis by (simp add: refundCredits_def findOne_def)
next
  case (Some orig)
  note orig = Some
  show ?thesis
  proof (cases "find (\<lambda>t. txType t = REFUND \<and> metaOriginalTxId t = Some i) (creditTransactions db)")
    case (Some r)
    then show ?thesis using orig by (simp add: refundCredits_def findOne_def)
  next
    case None
    let ?row = "refundRow rid (txUserId orig) \<bar>amount orig\<bar> i now"
    let ?upd = "\<lambda>a. a\<lparr> balance := balance a + \<bar>amount orig\<bar>, updatedAt := now \<rparr>"
    let ?db1 = "db\<lparr> userCredits := updateOne (\<lambda>a. userId a = txUserId orig) ?upd (userCredits db),
                    creditTransactions := insertOne ?row (creditTransactions db) \<rparr>"
    have first: "refundCredits rid now i db = (True, ?db1)"
      using orig None by (simp add: refundCredits_def findOne_def Let_def)
    have r1: "find (\<lambda>t. txId t = i \<and> txType t = USAGE \<and> status t = CONFIRMED)
                (insertOne ?row (creditTransactions db)) = Some orig"
      using orig by (simp add: insertOne_def find_append_Some)
    have r2: "find (\<lambda>t. txType t = REFUND \<and> metaOriginalTxId t = Some i)
                (insertOne ?row (creditTransactions db)) = Some ?row"
      using None by (simp add: insertOne_def find_append_None refundRow_def metaOriginalTxId_def)
    have second: "refundCredits rid2 now2 i ?db1 = (False, ?db1)"
      using r1 r2 by (simp add: refundCredits_def findOne_def)
    have bal: "getUserCredits (txUserId orig) ?db1
               = (if findOne (\<lambda>a. userId a = txUserId orig) (userCredits db) = None then 0
                  else getUserCredits (txUserId orig) db + \<bar>amount orig\<bar>)"
    proof (cases "find (\<lambda>a. userId a = txUserId orig) (userCredits db)")
      case None
      then show ?thesis by (simp add: getUserCredits_def findOne_def updateOne_no_match)
    next
      case (Some a0)
      have "find (\<lambda>a. userId a = txUserId orig)
              (updateOne (\<lambda>a. userId a = txUserId orig) ?upd (userCredits db)) = Some (?upd a0)"
        using Some by (intro find_updateOne_same) (auto dest: find_Some_iff [THEN iffD1])
      then show ?thesis using Some by (simp add: getUserCredits_def findOne_def)
    qed
    show ?thesis
      using orig None second bal by (simp add: first findOne_def insertOne_def)
  qed
qed

theorem refundCredits_once_witness:
  "refundCredits ''r1'' 2000 ''nope'' dbAfterDeduct = (False, dbAfterDeduct)
   \<and> fst (refundCredits ''r1'' 2000 ''u1'' dbAfterDeduct)
   \<and> getUserCredits ''0xabc'' (snd (refundCredits ''r1'' 2000 ''u1'' dbAfterDeduct)) = 60
   \<and> creditTransactions (snd (refundCredits ''r1'' 2000 ''u1'' dbAfterDeduct))
       = creditTransactions dbAfterDeduct @ [refundRow ''r1'' ''0xabc'' 60 ''u1'' 2000]
   \<and> refundCredits ''r2'' 3000 ''u1'' (snd (refundCredits ''r1'' 2000 ''u1'' dbAfterDeduct))
       = (False, snd (refundCredits ''r1'' 2000 ''u1'' dbAfterDeduct))"
  using refundCredits_once [where i = "''nope''" and db = dbAfterDeduct and rid = "''r1''"
          and now = 2000 and ?rid2.0 = "''r2''" and ?now2.0 = 3000]
        refundCredits_once [where i = "''u1''" and db = dbAfterDeduct and rid = "''r1''"
          and now = 2000 and ?rid2.0 = "''r2''" and ?now2.0 = 3000]
  by (simp add: refundCredits_def findOne_def dbAfterDeduct_def purchaseRow_def usageRow_def
        refundRow_def metaOriginalTxId_def getUserCredits_def insertOne_def)

section \<open>The negotiation price state\<close>

lemma notRaised_refl: "notRaised ps ps"
  by (simp add: notRaised_def)

lemma notRaised_trans:
  assumes ab: "notRaised a b" and bc: "notRaised b c"
  shows "notRaised a c"
  unfolding notRaised_def
proof (intro allI impI)
  fix w e
  assume "a w = Some e"
  then obtain e1 where e1: "b w = Some e1" "cents e1 \<le> cents e" "domain e1 = domain e"
    using ab unfolding notRaised_def by blast
  then obtain e2 where e2: "c w = Some e2" "cents e2 \<le> cents e1" "domain e2 = domain e1"
    using bc unfolding notRaised_def by blast
  show "\<exists>e'. c w = Some e' \<and> cents e' \<le> cents e \<and> domain e' = domain e"
    using e1 e2 by auto
qed

lemma getCurrentPrice_notRaised: "notRaised ps (snd (getCurrentPrice zk w d ps))"
  by (auto simp add: notRaised_def getCurrentPrice_def Let_def split: option.splits)

lemma increment_notRaised: "notRaised ps (snd (incrementNegotiationAttempts w ps))"
  by (auto simp add: notRaised_def incrementNegotiationAttempts_def Let_def split: option.splits)

lemma setTopic_notRaised: "notRaised ps (setTopic w tp ps)"
  by (auto simp add: notRaised_def setTopic_def split: option.splits)

lemma updatePrice_notRaised:
  "ps w = Some e \<Longrightarrow> p \<le> cents e \<Longrightarrow> notRaised ps (snd (updatePrice zk w p ps))"
  by (auto simp add: notRaised_def updatePrice_def Let_def split: option.splits)

lemma getCurrentPrice_aboveFloor:
  "getFloorPrice zk d \<le> getStartingPrice zk d \<Longrightarrow> aboveFloor zk ps \<Longrightarrow>
     aboveFloor zk (snd (getCurrentPrice zk w d ps))"
  by (auto simp add: aboveFloor_def getCurrentPrice_def Let_def split: option.splits)

lemma increment_aboveFloor:
  "aboveFloor zk ps \<Longrightarrow> aboveFloor zk (snd (incrementNegotiationAttempts w ps))"
  by (auto simp add: aboveFloor_def incrementNegotiationAttempts_def Let_def split: option.splits)

lemma setTopic_aboveFloor: "aboveFloor zk ps \<Longrightarrow> aboveFloor zk (setTopic w tp ps)"
  by (auto simp add: aboveFloor_def setTopic_def split: option.splits)

lemma updatePrice_aboveFloor: "aboveFloor zk ps \<Longrightarrow> aboveFloor zk (snd (updatePrice zk w p ps))"
  by (auto simp add: aboveFloor_def updatePrice_def Let_def split: option.splits)

lemma updatePrice_aboveFloor_pair:
  "aboveFloor zk ps \<Longrightarrow> updatePrice zk w p ps = (r, ps') \<Longrightarrow> aboveFloor zk ps'"
  using updatePrice_aboveFloor [of zk ps w p] by simp

lemma increment_cents:
  "ps w = Some e \<Longrightarrow> \<exists>e'. snd (incrementNegotiationAttempts w ps) w = Some e' \<and> cents e' = cents e"
  by (simp add: incrementNegotiationAttempts_def Let_def)


lemma agent_aboveFloor:
  assumes "getFloorPrice zk d \<le> getStartingPrice zk d" and "aboveFloor zk ps"
  shows "aboveFloor zk (snd (runNegotiationAgent zk k tm reply w d ps))"
proof -
  have g: "aboveFloor zk (snd (getCurrentPrice zk w d ps))"
    using assms by (rule getCurrentPrice_aboveFloor)
  obtain cs ps1 where c: "getCurrentPrice zk w d ps = (cs, ps1)"
    by (cases "getCurrentPrice zk w d ps")
  with g have g1: "aboveFloor zk ps1" by simp
  show ?thesis
    using assms(2) g1 c
    by (auto simp add: runNegotiationAgent_def Let_def increment_aboveFloor setTopic_aboveFloor
          updatePrice_aboveFloor
        split: OracleReply.splits Action.splits option.splits prod.splits
        intro: updatePrice_aboveFloor_pair [OF increment_aboveFloor])
qed

lemma getCurrentPrice_entry:
  "\<exists>e. snd (getCurrentPrice zk w d ps) w = Some e
       \<and> cents (fst (getCurrentPrice zk w d ps)) = cents e
       \<and> negotiationAttempts (fst (getCurrentPrice zk w d ps)) = negotiationAttempts e
       \<and> (case ps w of Some e0 \<Rightarrow> e = e0 \<and> snd (getCurrentPrice zk w d ps) = ps
           | None \<Rightarrow> domain e = d \<and> cents e = getStartingPrice zk d)"
  by (simp add: getCurrentPrice_def Let_def split: option.splits)

lemma agent_notRaised: "notRaised ps (snd (runNegotiationAgent zk k tm reply w d ps))"
proof -
  obtain cs ps1 where c: "getCurrentPrice zk w d ps = (cs, ps1)"
    by (cases "getCurrentPrice zk w d ps")
  have A: "notRaised ps ps1"
    using getCurrentPrice_notRaised [of ps zk w d] c by simp
  obtain e where e: "ps1 w = Some e" "cents cs = cents e"
    using getCurrentPrice_entry [of zk w d ps] c by auto
  have B: "notRaised ps (setTopic w tp ps1)" for tp
    using A setTopic_notRaised by (rule notRaised_trans)
  let ?ps2 = "snd (incrementNegotiationAttempts w ps1)"
  have C: "notRaised ps ?ps2"
    using A increment_notRaised by (rule notRaised_trans)
  obtain e2 where e2: "?ps2 w = Some e2" "cents e2 = cents e"
    using increment_cents [of ps1 w e] e(1) by blast
  have D: "notRaised ps ps3" if "p < cents cs" "updatePrice zk w p ?ps2 = (r, ps3)" for p r ps3
  proof -
    have "notRaised ?ps2 (snd (updatePrice zk w p ?ps2))"
      using e2 e(2) that(1) updatePrice_notRaised [of ?ps2 w e2 p zk] by simp
    with that(2) have "notRaised ?ps2 ps3" by simp
    with C show ?thesis by (rule notRaised_trans)
  qed
  have E: "notRaised ps (snd (updatePrice zk w p ?ps2))" if "p < cents cs" for p
    using D [OF that, of "fst (updatePrice zk w p ?ps2)" "snd (updatePrice zk w p ?ps2)"]
    by simp
  show ?thesis
    using c A B C D E notRaised_refl [of ps]
    by (auto simp add: runNegotiationAgent_def Let_def
        split: OracleReply.splits Action.splits option.splits prod.splits)
qed

lemma applyOp_aboveFloor:
  "\<forall>d. getFloorPrice zk d \<le> getStartingPrice zk d \<Longrightarrow> aboveFloor zk ps \<Longrightarrow>
     aboveFloor zk (applyOp zk ps op)"
  by (cases op)
     (simp_all add: getCurrentPrice_aboveFloor updatePrice_aboveFloor increment_aboveFloor
        setTopic_aboveFloor agent_aboveFloor)

lemma applyOp_notRaised: "\<not> isUpdatePrice op \<Longrightarrow> notRaised ps (applyOp zk ps op)"
  by (cases op)
     (simp_all add: getCurrentPrice_notRaised increment_notRaised setTopic_notRaised
        agent_notRaised)

lemma applyOps_aboveFloor:
  "\<forall>d. getFloorPrice zk d \<le> getStartingPrice zk d \<Longrightarrow> aboveFloor zk ps \<Longrightarrow>
     aboveFloor zk (applyOps zk ops ps)"
  unfolding applyOps_def
  by (induction ops arbitrary: ps) (simp_all add: applyOp_aboveFloor)

lemma applyOps_notRaised:
  "\<not> list_ex isUpdatePrice ops \<Longrightarrow> notRaised ps (applyOps zk ops ps)"
  unfolding applyOps_def
proof (induction ops arbitrary: ps)
  case Nil
  then show ?case by (simp add: notRaised_refl)
next
  case (Cons op ops)
  have "notRaised ps (applyOp zk ps op)"
    using Cons.prems by (simp add: applyOp_notRaised)
  moreover have "notRaised (applyOp zk ps op) (foldl (applyOp zk) (applyOp zk ps op) ops)"
    using Cons.prems by (intro Cons.IH) simp
  ultimately show ?case
    by (simp add: notRaised_trans)
qed

text \<open>
  C6. When the oracle answers \<^verbatim>\<open>discount\<close> and the identity's
  \<^verbatim>\<open>negotiationAttempts\<close> is 0, the agent does what it does on \<^verbatim>\<open>pushback\<close>: the
  stored price is unchanged and returned, attempts becomes 1, and the result is the same
  for every suggested price.
\<close>

theorem discount_first_complaint_is_pushback:
  assumes "action ai = Discount"
      and "negotiationAttempts (fst (getCurrentPrice zk w d ps)) = 0"
  shows "\<exists>e. snd (getCurrentPrice zk w d ps) w = Some e
          \<and> runNegotiationAgent zk True tm (Parsed ai) w d ps
              = (Inr (cents e),
                 (snd (getCurrentPrice zk w d ps))(w \<mapsto> e\<lparr> negotiationAttempts := 1 \<rparr>))
          \<and> runNegotiationAgent zk True tm (Parsed ai) w d ps
              = runNegotiationAgent zk True tm (Parsed (ai\<lparr> action := Pushback \<rparr>)) w d ps
          \<and> (\<forall>s. runNegotiationAgent zk True tm (Parsed (ai\<lparr> suggestedPriceCents := s \<rparr>)) w d ps
                 = runNegotiationAgent zk True tm (Parsed ai) w d ps)"
proof -
  obtain e where e: "snd (getCurrentPrice zk w d ps) w = Some e"
      "cents (fst (getCurrentPrice zk w d ps)) = cents e"
      "negotiationAttempts (fst (getCurrentPrice zk w d ps)) = negotiationAttempts e"
    using getCurrentPrice_entry [of zk w d ps] by blast
  obtain cs ps1 where g: "getCurrentPrice zk w d ps = (cs, ps1)"
    by (cases "getCurrentPrice zk w d ps")
  show ?thesis
    using assms e g
    by (simp add: runNegotiationAgent_def incrementNegotiationAttempts_def Let_def)
qed

theorem discount_first_complaint_is_pushback_witness:
  "action \<lparr> action = Discount, suggestedPriceCents = Some 1 \<rparr> = Discount
   \<and> negotiationAttempts (fst (getCurrentPrice exampleTier ''0xabc'' ''x.com'' quoted)) = 0
   \<and> runNegotiationAgent exampleTier True None
         (Parsed \<lparr> action = Discount, suggestedPriceCents = Some 1 \<rparr>) ''0xabc'' ''x.com'' quoted
       = (Inr 10,
          quoted(''0xabc'' \<mapsto> \<lparr> cents = 10, round = 0, negotiationAttempts = 1,
                                 domain = ''x.com'', topic = None \<rparr>))"
  using discount_first_complaint_is_pushback
          [where ai = "\<lparr> action = Discount, suggestedPriceCents = Some 1 \<rparr>"
             and zk = exampleTier and w = "''0xabc''" and d = "''x.com''" and ps = quoted
             and tm = None]
  by (simp add: getCurrentPrice_def quoted_def)

text \<open>
  C9, as the code has it. With \<open>e\<close> the identity's entry after the price lookup:
  \<^verbatim>\<open>pushback\<close> adds one to \<^verbatim>\<open>negotiationAttempts\<close> and keeps the price;
  \<^verbatim>\<open>chat\<close> changes nothing, attempts included; \<^verbatim>\<open>floor\<close> adds one to attempts
  and, when the price is above the floor of the request's domain and that floor is not
  below the floor of the stored domain, lowers the price to it (counting a round),
  otherwise keeps the price.
\<close>

theorem advance_pushback_floor_chat:
  "\<exists>e. snd (getCurrentPrice zk w d ps) w = Some e
     \<and> (action ai = Pushback \<longrightarrow>
          runNegotiationAgent zk True tm (Parsed ai) w d ps
            = (Inr (cents e),
               (snd (getCurrentPrice zk w d ps))
                 (w \<mapsto> e\<lparr> negotiationAttempts := negotiationAttempts e + 1 \<rparr>)))
     \<and> (action ai = Chat \<longrightarrow>
          runNegotiationAgent zk True tm (Parsed ai) w d ps
            = (Inr (cents e), snd (getCurrentPrice zk w d ps)))
     \<and> (action ai = Floor \<longrightarrow>
          runNegotiationAgent zk True tm (Parsed ai) w d ps
            = (Inr (getFloorPrice zk d),
               (snd (getCurrentPrice zk w d ps))
                 (w \<mapsto> (if getFloorPrice zk d < cents e
                             \<and> getFloorPrice zk (domain e) \<le> getFloorPrice zk d
                          then e\<lparr> cents := getFloorPrice zk d, round := round e + 1,
                                  negotiationAttempts := negotiationAttempts e + 1 \<rparr>
                          else e\<lparr> negotiationAttempts := negotiationAttempts e + 1 \<rparr>))))"
proof -
  obtain e where e: "snd (getCurrentPrice zk w d ps) w = Some e"
      "cents (fst (getCurrentPrice zk w d ps)) = cents e"
      "negotiationAttempts (fst (getCurrentPrice zk w d ps)) = negotiationAttempts e"
    using getCurrentPrice_entry [of zk w d ps] by blast
  obtain cs ps1 where g: "getCurrentPrice zk w d ps = (cs, ps1)"
    by (cases "getCurrentPrice zk w d ps")
  show ?thesis
    using e g
    by (auto simp add: runNegotiationAgent_def incrementNegotiationAttempts_def updatePrice_def
          Let_def)
qed

theorem advance_pushback_floor_chat_witness:
  "runNegotiationAgent exampleTier True None
       (Parsed \<lparr> action = Pushback, suggestedPriceCents = None \<rparr>) ''0xabc'' ''x.com'' quoted
     = (Inr 10,
        quoted(''0xabc'' \<mapsto> \<lparr> cents = 10, round = 0, negotiationAttempts = 1,
                               domain = ''x.com'', topic = None \<rparr>))
   \<and> runNegotiationAgent exampleTier True None
       (Parsed \<lparr> action = Chat, suggestedPriceCents = None \<rparr>) ''0xabc'' ''x.com'' quoted
     = (Inr 10, quoted)
   \<and> runNegotiationAgent exampleTier True None
       (Parsed \<lparr> action = Floor, suggestedPriceCents = None \<rparr>) ''0xabc'' ''x.com'' quoted
     = (Inr 5,
        quoted(''0xabc'' \<mapsto> \<lparr> cents = 5, round = 1, negotiationAttempts = 1,
                               domain = ''x.com'', topic = None \<rparr>))"
  using advance_pushback_floor_chat
          [where ai = "\<lparr> action = Pushback, suggestedPriceCents = None \<rparr>"
             and zk = exampleTier and w = "''0xabc''" and d = "''x.com''" and ps = quoted
             and tm = None]
        advance_pushback_floor_chat
          [where ai = "\<lparr> action = Chat, suggestedPriceCents = None \<rparr>"
             and zk = exampleTier and w = "''0xabc''" and d = "''x.com''" and ps = quoted
             and tm = None]
        advance_pushback_floor_chat
          [where ai = "\<lparr> action = Floor, suggestedPriceCents = None \<rparr>"
             and zk = exampleTier and w = "''0xabc''" and d = "''x.com''" and ps = quoted
             and tm = None]
  by (simp add: getCurrentPrice_def quoted_def exampleTier_def)

text \<open>The claim as stated fails on \<^verbatim>\<open>chat\<close>: attempts is 0 before and 0 after.\<close>

theorem chat_keeps_attempts:
  "map_option negotiationAttempts (quoted ''0xabc'') = Some 0
   \<and> map_option negotiationAttempts
        (snd (runNegotiationAgent exampleTier True None
                (Parsed \<lparr> action = Chat, suggestedPriceCents = None \<rparr>) ''0xabc'' ''x.com''
                quoted) ''0xabc'') = Some 0"
  by (simp add: runNegotiationAgent_def getCurrentPrice_def quoted_def)

text \<open>
  C5, as the code has it. When no tier starts below its floor and every stored price is
  at or above the floor of its stored domain, this stays so after every run of the
  module's operations, \<^verbatim>\<open>updatePrice\<close> with any price included. Over runs without a
  direct \<^verbatim>\<open>updatePrice\<close> call (price lookups, attempt and topic updates, and the agent
  with any oracle reply) every identity keeps its domain and its price never rises.
\<close>

theorem price_floor_and_agent_monotone:
  assumes "\<forall>d. getFloorPrice zk d \<le> getStartingPrice zk d"
      and "aboveFloor zk ps"
  shows "aboveFloor zk (applyOps zk ops ps)
         \<and> (\<not> list_ex isUpdatePrice ops \<longrightarrow>
              (\<forall>w e. ps w = Some e \<longrightarrow>
                 (\<exists>e'. applyOps zk ops ps w = Some e' \<and> cents e' \<le> cents e
                        \<and> domain e' = domain e)))"
  using applyOps_aboveFloor [OF assms] applyOps_notRaised [of ops ps zk]
  by (simp add: notRaised_def)

theorem price_floor_and_agent_monotone_witness:
  "(\<forall>d. getFloorPrice exampleTier d \<le> getStartingPrice exampleTier d)
   \<and> aboveFloor exampleTier quoted
   \<and> \<not> list_ex isUpdatePrice complaints
   \<and> aboveFloor exampleTier (applyOps exampleTier complaints quoted)
   \<and> (\<exists>e'. applyOps exampleTier complaints quoted ''0xabc'' = Some e' \<and> cents e' \<le> 10
           \<and> domain e' = ''x.com'')"
proof -
  have a: "\<forall>d. getFloorPrice exampleTier d \<le> getStartingPrice exampleTier d"
    by (simp add: exampleTier_def)
  have b: "aboveFloor exampleTier quoted"
    by (simp add: aboveFloor_def quoted_def exampleTier_def)
  have c: "\<not> list_ex isUpdatePrice complaints"
    by (simp add: complaints_def numeral_eq_Suc)
  have d: "quoted ''0xabc'' = Some \<lparr> cents = 10, round = 0, negotiationAttempts = 0,
             domain = ''x.com'', topic = None \<rparr>"
    by (simp add: quoted_def)
  have f: "aboveFloor exampleTier (applyOps exampleTier complaints quoted)"
    using price_floor_and_agent_monotone [OF a b, of complaints] by simp
  have "\<exists>e'. applyOps exampleTier complaints quoted ''0xabc'' = Some e'
          \<and> cents e' \<le> cents \<lparr> cents = 10, round = 0, negotiationAttempts = 0,
                                   domain = ''x.com'', topic = None \<rparr>
          \<and> domain e' = domain \<lparr> cents = 10, round = 0, negotiationAttempts = 0,
                                   domain = ''x.com'', topic = None \<rparr>"
    using price_floor_and_agent_monotone [OF a b, of complaints] c d by blast
  then have g: "\<exists>e'. applyOps exampleTier complaints quoted ''0xabc'' = Some e'
          \<and> cents e' \<le> 10 \<and> domain e' = ''x.com''"
    by simp
  show ?thesis
    using a b c f g by blast
qed

text \<open>The claim as stated fails on \<^verbatim>\<open>updatePrice\<close>, which accepts any price from the
  floor upwards: a price of 10 becomes 20.\<close>

theorem updatePrice_raises_price:
  "map_option cents (quoted ''0xabc'') = Some 10
   \<and> map_option cents (applyOps exampleTier [OpUpdatePrice ''0xabc'' 20] quoted ''0xabc'') = Some 20"
  by (simp add: applyOps_def quoted_def updatePrice_def exampleTier_def)


section \<open>The payment middleware\<close>

lemma processPayment_dbSix:
  "processPayment (\<lambda>k. ''u1'') 1000 10 ''0xabc'' CREDITS_FIRST dbSix
     = Some (\<lparr> remainingCostCents = 4, creditsDeducted = 6, transactionId = Some ''u1'' \<rparr>,
             dbSixSpent)"
  by (subst processPayment.simps)
     (simp add: dbSix_def dbSixSpent_def findOne_def findOneAndUpdate_def deductUpdate_def
        insertOne_def)

lemma getCurrentPrice_fresh:
  "getCurrentPrice exampleTier ''0xabc'' ''x.com'' Map.empty
     = (\<lparr> cents = 10, round = 0, negotiationAttempts = 0 \<rparr>, quoted)"
  by (simp add: getCurrentPrice_def exampleTier_def quoted_def)

lemma getCurrentPrice_quoted:
  "getCurrentPrice exampleTier ''0xabc'' ''x.com'' quoted
     = (\<lparr> cents = 10, round = 0, negotiationAttempts = 0 \<rparr>, quoted)"
  by (simp add: getCurrentPrice_def quoted_def)

text \<open>
  C2 fails on the code. \<^verbatim>\<open>requirePayment\<close> answers a failed settlement with status 402
  and calls no \<^verbatim>\<open>refundCredits\<close>: the 6 credits deducted in the same request, or
  recovered from the ledger on a resumed request, stay deducted and no REFUND row is
  written.
\<close>

theorem settlement_failure_keeps_deduction:
  "requirePayment exampleTier x402SettleFails (\<lambda>k. ''u1'') ''r1'' 1000 reqFirst (dbSix, Map.empty)
     = Some (SettlementFailed, dbSixSpent, quoted)
   \<and> requirePayment exampleTier x402Challenge (\<lambda>k. ''u1'') ''r1'' 1000 reqFirst (dbSix, Map.empty)
     = Some (PaymentRequired 402 6 4, dbSixSpent, quoted)
   \<and> requirePayment exampleTier x402SettleFails (\<lambda>k. ''u2'') ''r2'' 2000 reqResumed
        (dbSixSpent, quoted)
     = Some (SettlementFailed, dbSixSpent, quoted)
   \<and> getUserCredits ''0xabc'' dbSix = 6
   \<and> getUserCredits ''0xabc'' dbSixSpent = 0
   \<and> filter (\<lambda>t. txType t = REFUND) (creditTransactions dbSixSpent) = []"
proof -
  have a: "requirePayment exampleTier x402SettleFails (\<lambda>k. ''u1'') ''r1'' 1000 reqFirst
             (dbSix, Map.empty) = Some (SettlementFailed, dbSixSpent, quoted)"
    by (simp add: requirePayment_def creditPhase_def reqFirst_def orElse_def
          getCurrentPrice_fresh processPayment_dbSix x402SettleFails_def)
  have b: "requirePayment exampleTier x402Challenge (\<lambda>k. ''u1'') ''r1'' 1000 reqFirst
             (dbSix, Map.empty) = Some (PaymentRequired 402 6 4, dbSixSpent, quoted)"
    by (simp add: requirePayment_def creditPhase_def reqFirst_def orElse_def
          getCurrentPrice_fresh processPayment_dbSix x402Challenge_def)
  have l: "latestUsage ''0xabc'' (creditTransactions dbSixSpent)
             = Some (usageRow ''u1'' ''0xabc'' 6 10 1000)"
    by (simp add: latestUsage_def dbSixSpent_def purchaseRow_def usageRow_def)
  have c: "requirePayment exampleTier x402SettleFails (\<lambda>k. ''u2'') ''r2'' 2000 reqResumed
             (dbSixSpent, quoted) = Some (SettlementFailed, dbSixSpent, quoted)"
    by (simp add: requirePayment_def creditPhase_def reqResumed_def reqFirst_def orElse_def
          getCurrentPrice_quoted l x402SettleFails_def usageRow_def)
  have d: "getUserCredits ''0xabc'' dbSix = 6 \<and> getUserCredits ''0xabc'' dbSixSpent = 0
           \<and> filter (\<lambda>t. txType t = REFUND) (creditTransactions dbSixSpent) = []"
    by (simp add: getUserCredits_def findOne_def dbSix_def dbSixSpent_def purchaseRow_def
          usageRow_def)
  show ?thesis using a b c d by simp
qed

lemma newest_None: "newest ts = None \<longleftrightarrow> ts = []"
  by (induction ts) (auto split: option.splits)

lemma newest_Some:
  "newest ts = Some t \<Longrightarrow> t \<in> set ts \<and> (\<forall>t' \<in> set ts. createdAt t' \<le> createdAt t)"
proof (induction ts arbitrary: t)
  case Nil
  then show ?case by simp
next
  case (Cons a ts)
  show ?case
  proof (cases "newest ts")
    case None
    then have "ts = []" by (simp add: newest_None)
    then show ?thesis using Cons.prems by simp
  next
    case (Some b)
    from Cons.IH [OF Some] have b: "b \<in> set ts" "\<forall>t' \<in> set ts. createdAt t' \<le> createdAt b"
      by simp_all
    show ?thesis
    proof (cases "createdAt a < createdAt b")
      case True
      then have "t = b" using Cons.prems Some by simp
      then show ?thesis using b True by auto
    next
      case False
      then have "t = a" using Cons.prems Some by simp
      then show ?thesis using b False by fastforce
    qed
  qed
qed

lemma latestUsage_None:
  "latestUsage w txs = None \<Longrightarrow> \<forall>t \<in> set txs. \<not> (txUserId t = w \<and> txType t = USAGE)"
  by (simp add: latestUsage_def newest_None filter_empty_conv)

lemma latestUsage_Some:
  assumes "latestUsage w txs = Some t"
  shows "t \<in> set txs \<and> txUserId t = w \<and> txType t = USAGE
         \<and> (\<forall>t' \<in> set txs. txUserId t' = w \<and> txType t' = USAGE \<longrightarrow> createdAt t' \<le> createdAt t)"
  using newest_Some [OF assms [unfolded latestUsage_def]] by auto

lemma creditPhase_settling:
  "\<exists>residual deducted tid.
     creditPhase uuid now True price w pref db = Some (residual, deducted, tid, db)
     \<and> recoveredFrom now price w (creditTransactions db) (residual, deducted, tid)"
proof (cases "latestUsage w (creditTransactions db)")
  case None
  from latestUsage_None [OF None] show ?thesis
    using None by (auto simp add: creditPhase_def recoveredFrom_def)
next
  case (Some t)
  note t = latestUsage_Some [OF Some]
  show ?thesis
  proof (cases "now - createdAt t < 300000")
    case True
    have young: "\<exists>t \<in> set (creditTransactions db). txUserId t = w \<and> txType t = USAGE
                   \<and> now - createdAt t < 300000"
      using t True by blast
    have newest_row: "\<exists>t0 \<in> set (creditTransactions db). txUserId t0 = w \<and> txType t0 = USAGE
              \<and> (\<forall>t' \<in> set (creditTransactions db). txUserId t' = w \<and> txType t' = USAGE
                     \<longrightarrow> createdAt t' \<le> createdAt t0)
              \<and> (price - (- amount t), - amount t, Some (txId t))
                  = (price - (- amount t0), - amount t0, Some (txId t0))"
      using t by blast
    show ?thesis
      using Some True young newest_row
      by (simp add: creditPhase_def recoveredFrom_def)
  next
    case False
    have "\<not> (\<exists>t' \<in> set (creditTransactions db). txUserId t' = w \<and> txType t' = USAGE
                 \<and> now - createdAt t' < 300000)"
    proof
      assume "\<exists>t' \<in> set (creditTransactions db). txUserId t' = w \<and> txType t' = USAGE
                 \<and> now - createdAt t' < 300000"
      then obtain t' where t': "t' \<in> set (creditTransactions db)" "txUserId t' = w"
          "txType t' = USAGE" "now - createdAt t' < 300000"
        by blast
      then have "createdAt t' \<le> createdAt t" using t by blast
      then show False using t'(4) False by simp
    qed
    then show ?thesis
      using Some False by (simp add: creditPhase_def recoveredFrom_def)
  qed
qed

text \<open>
  C8. A request that carries a payment authorization makes \<^verbatim>\<open>requirePayment\<close> return
  with the credit accounts untouched and no USAGE row added. Without a wallet address it
  is answered 400 with nothing changed. Otherwise the credits already deducted and the
  residual are read off the ledger: when the wallet has a USAGE row younger than 300000 ms,
  they are \<open>- amount\<close> and the current price minus it for a USAGE row of the wallet with
  the greatest \<^verbatim>\<open>createdAt\<close>; when it has none, nothing counts as deducted and the residual
  is the whole price. These two numbers are what the 402 challenge reports, and, after a
  verified settlement that succeeds, what \<^verbatim>\<open>req.payment\<close> holds and the amount of the one
  DIRECT_USDC row appended; every other outcome leaves the ledger as it was.
\<close>

theorem resumed_settlement_no_deduction:
  assumes settling: "orElse (paymentAuthorization req) None \<noteq> None"
  shows "\<exists>out db' ps'.
           requirePayment zk x uuid rowId now req (db, ps) = Some (out, db', ps')
         \<and> userCredits db' = userCredits db
         \<and> filter (\<lambda>t. txType t = USAGE) (creditTransactions db')
             = filter (\<lambda>t. txType t = USAGE) (creditTransactions db)
         \<and> (case orElse (headerWalletAddress req) (bodyWalletAddress req) of
               None \<Rightarrow> out = Status400 \<and> db' = db \<and> ps' = ps
             | Some w \<Rightarrow>
                 if w = [] then out = Status400 \<and> db' = db \<and> ps' = ps
                 else
                   (\<exists>price residual deducted tid.
                      map_option cents (ps' w) = Some price
                    \<and> recoveredFrom now price w (creditTransactions db) (residual, deducted, tid)
                    \<and> (case payTo x of
                          None \<Rightarrow> out = Status500 \<and> db' = db
                        | Some payee \<Rightarrow>
                            (case processHTTPRequest x of
                               PaymentError st \<Rightarrow>
                                 out = PaymentRequired st deducted residual \<and> db' = db
                             | NoPaymentRequired \<Rightarrow> out = NextWith None \<and> db' = db
                             | PaymentVerified \<Rightarrow>
                                 if settleSuccess (processSettlement x)
                                 then out = NextWith
                                        (Some \<lparr> paymentCreditsDeducted = deducted,
                                                usdcPaid = residual,
                                                paymentTransactionId =
                                                  orElse (transaction (processSettlement x)) tid \<rparr>)
                                    \<and> db' = db\<lparr> creditTransactions :=
                                                  creditTransactions db @
                                                  [fallbackRow
                                                     (case orElse tid None of
                                                        None \<Rightarrow> rowId | Some i \<Rightarrow> i)
                                                     w residual
                                                     (orElse (transaction (processSettlement x))
                                                        None)
                                                     now] \<rparr>
                                 else out = SettlementFailed \<and> db' = db))))"
proof (cases "orElse (headerWalletAddress req) (bodyWalletAddress req)")
  case None
  then show ?thesis by (simp add: requirePayment_def)
next
  case (Some w)
  show ?thesis
  proof (cases "w = []")
    case True
    then show ?thesis using Some by (simp add: requirePayment_def)
  next
    case False
    let ?d = "case orElse (orElse (headerDomain req) (bodyDomain req)) (Some ''unknown'') of
                None \<Rightarrow> ''unknown'' | Some dm \<Rightarrow> dm"
    let ?pref = "if useCreditsFirst req \<noteq> Some False then CREDITS_FIRST else PREF_DIRECT_USDC"
    obtain cs ps1 where g: "getCurrentPrice zk w ?d ps = (cs, ps1)"
      by (cases "getCurrentPrice zk w ?d ps")
    obtain e where e: "ps1 w = Some e" "cents cs = cents e"
      using getCurrentPrice_entry [of zk w ?d ps] g by auto
    obtain residual deducted tid
      where cp: "creditPhase uuid now True (cents e) w ?pref db
                   = Some (residual, deducted, tid, db)"
        and rf: "recoveredFrom now (cents e) w (creditTransactions db) (residual, deducted, tid)"
      using creditPhase_settling [of uuid now "cents e" w ?pref db] by blast
    have run: "requirePayment zk x uuid rowId now req (db, ps)
        = (case payTo x of
             None \<Rightarrow> Some (Status500, db, ps1)
           | Some payee \<Rightarrow>
               (case processHTTPRequest x of
                  PaymentError st \<Rightarrow> Some (PaymentRequired st deducted residual, db, ps1)
                | PaymentVerified \<Rightarrow>
                    if \<not> settleSuccess (processSettlement x)
                    then Some (SettlementFailed, db, ps1)
                    else Some (NextWith
                                 (Some \<lparr> paymentCreditsDeducted = deducted,
                                         usdcPaid = residual,
                                         paymentTransactionId =
                                           orElse (transaction (processSettlement x)) tid \<rparr>),
                               db\<lparr> creditTransactions :=
                                     creditTransactions db @
                                     [fallbackRow
                                        (case orElse tid None of None \<Rightarrow> rowId | Some i \<Rightarrow> i)
                                        w residual
                                        (orElse (transaction (processSettlement x)) None)
                                        now] \<rparr>,
                               ps1)
                | NoPaymentRequired \<Rightarrow> Some (NextWith None, db, ps1)))"
      using settling Some False g e cp
      by (auto simp add: requirePayment_def Let_def insertOne_def
          split: option.splits HTTPProcessResult.splits)
    have known: "map_option cents (ps1 w) = Some (cents e)
                 \<and> recoveredFrom now (cents e) w (creditTransactions db) (residual, deducted, tid)"
      using e rf by simp
    show ?thesis
    proof (cases "payTo x")
      case None
      then show ?thesis using Some False known by (auto simp add: run)
    next
      case (Some payee)
      note payee = Some
      show ?thesis
      proof (cases "processHTTPRequest x")
        case (PaymentError st)
        then show ?thesis using \<open>orElse (headerWalletAddress req) (bodyWalletAddress req) = Some w\<close>
            False known payee
          by (auto simp add: run)
      next
        case NoPaymentRequired
        then show ?thesis using \<open>orElse (headerWalletAddress req) (bodyWalletAddress req) = Some w\<close>
            False known payee
          by (auto simp add: run)
      next
        case PaymentVerified
        then show ?thesis using \<open>orElse (headerWalletAddress req) (bodyWalletAddress req) = Some w\<close>
            False known payee
          by (auto simp add: run fallbackRow_def)
      qed
    qed
  qed
qed

theorem resumed_settlement_no_deduction_witness:
  "orElse (paymentAuthorization reqResumed) None \<noteq> None
   \<and> recoveredFrom 2000 10 ''0xabc'' (creditTransactions dbTwoUsages) (4, 6, Some ''u1'')
   \<and> requirePayment exampleTier x402Challenge (\<lambda>k. ''u2'') ''r2'' 2000 reqResumed
        (dbTwoUsages, quoted)
       = Some (PaymentRequired 402 6 4, dbTwoUsages, quoted)
   \<and> requirePayment exampleTier x402Settles (\<lambda>k. ''u2'') ''r2'' 2000 reqResumed
        (dbTwoUsages, quoted)
       = Some (NextWith (Some \<lparr> paymentCreditsDeducted = 6, usdcPaid = 4,
                                paymentTransactionId = Some ''0xsettled'' \<rparr>),
               dbTwoUsages\<lparr> creditTransactions :=
                              creditTransactions dbTwoUsages @
                              [fallbackRow ''u1'' ''0xabc'' 4 (Some ''0xsettled'') 2000] \<rparr>,
               quoted)
   \<and> requirePayment exampleTier x402Challenge (\<lambda>k. ''u2'') ''r2'' 400000 reqResumed
        (dbTwoUsages, quoted)
       = Some (PaymentRequired 402 0 10, dbTwoUsages, quoted)
   \<and> requirePayment exampleTier x402Challenge (\<lambda>k. ''u2'') ''r2'' 2000
        (reqResumed\<lparr> headerWalletAddress := None, bodyWalletAddress := Some [] \<rparr>)
        (dbTwoUsages, quoted)
       = Some (Status400, dbTwoUsages, quoted)"
proof -
  have s: "orElse (paymentAuthorization reqResumed) None \<noteq> None"
    by (simp add: reqResumed_def orElse_def)
  have l: "latestUsage ''0xabc'' (creditTransactions dbTwoUsages)
             = Some (usageRow ''u1'' ''0xabc'' 6 10 1000)"
    by (simp add: latestUsage_def dbTwoUsages_def purchaseRow_def usageRow_def)
  have rec: "recoveredFrom 2000 10 ''0xabc'' (creditTransactions dbTwoUsages) (4, 6, Some ''u1'')"
    by (simp add: recoveredFrom_def dbTwoUsages_def purchaseRow_def usageRow_def)
  have a: "requirePayment exampleTier x402Challenge (\<lambda>k. ''u2'') ''r2'' 2000 reqResumed
             (dbTwoUsages, quoted) = Some (PaymentRequired 402 6 4, dbTwoUsages, quoted)"
    by (simp add: requirePayment_def creditPhase_def reqResumed_def reqFirst_def orElse_def
          getCurrentPrice_quoted l x402Challenge_def usageRow_def)
  have b: "requirePayment exampleTier x402Settles (\<lambda>k. ''u2'') ''r2'' 2000 reqResumed
             (dbTwoUsages, quoted)
           = Some (NextWith (Some \<lparr> paymentCreditsDeducted = 6, usdcPaid = 4,
                                    paymentTransactionId = Some ''0xsettled'' \<rparr>),
                   dbTwoUsages\<lparr> creditTransactions :=
                                  creditTransactions dbTwoUsages @
                                  [fallbackRow ''u1'' ''0xabc'' 4 (Some ''0xsettled'') 2000] \<rparr>,
                   quoted)"
    by (simp add: requirePayment_def creditPhase_def reqResumed_def reqFirst_def orElse_def
          getCurrentPrice_quoted l x402Settles_def usageRow_def insertOne_def)
  have c: "requirePayment exampleTier x402Challenge (\<lambda>k. ''u2'') ''r2'' 400000 reqResumed
             (dbTwoUsages, quoted) = Some (PaymentRequired 402 0 10, dbTwoUsages, quoted)"
    by (simp add: requirePayment_def creditPhase_def reqResumed_def reqFirst_def orElse_def
          getCurrentPrice_quoted l x402Challenge_def usageRow_def)
  have d: "requirePayment exampleTier x402Challenge (\<lambda>k. ''u2'') ''r2'' 2000
             (reqResumed\<lparr> headerWalletAddress := None, bodyWalletAddress := Some [] \<rparr>)
             (dbTwoUsages, quoted) = Some (Status400, dbTwoUsages, quoted)"
    by (simp add: requirePayment_def reqResumed_def reqFirst_def orElse_def)
  show ?thesis
    using resumed_settlement_no_deduction [OF s, of exampleTier x402Challenge "\<lambda>k. ''u2''"
            "''r2''" 2000 dbTwoUsages quoted] s rec a b c d
    by simp
qed

section \<open>Verification of an external transfer\<close>

lemma paidAmountRaw_sum:
  "paidAmountRaw w ls acc = Some p \<Longrightarrow>
     p = acc + sum_list (map (\<lambda>l. case logData l of None \<Rightarrow> 0 | Some v \<Rightarrow> v)
                          (filter (isTransferFrom w) ls))"
proof (induction ls arbitrary: acc)
  case Nil
  then show ?case by simp
next
  case (Cons l ls)
  show ?case
  proof (cases "isTransferFrom w l")
    case False
    then show ?thesis using Cons.prems Cons.IH [of acc] by simp
  next
    case True
    then obtain v where v: "logData l = Some v"
      using Cons.prems by (cases "logData l") simp_all
    then have "paidAmountRaw w ls (acc + v) = Some p"
      using True Cons.prems by simp
    from Cons.IH [OF this] show ?thesis using True v by simp
  qed
qed

text \<open>
  C10, as the code has it. \<^verbatim>\<open>verifyTransaction\<close> answers \<^verbatim>\<open>true\<close> exactly when
  the receipt reports success, the transaction's sender is the claimed wallet up to letter
  case, every \<^verbatim>\<open>BigInt(log.data)\<close> of a Transfer log from that wallet decodes, and
  either the sum of those amounts is at least \<open>expectedCents * 10000\<close> or the
  transaction carries a positive native value.
\<close>

theorem verifyTransaction_true_iff:
  "verifyTransaction receipt tx expectedCents userWallet \<longleftrightarrow>
     (\<exists>r t paid. receipt = Some r \<and> tx = Some t
        \<and> receiptStatus r = StatusSuccess
        \<and> toLowerCase (txFrom t) = toLowerCase userWallet
        \<and> paidAmountRaw userWallet (logs r) 0 = Some paid
        \<and> paid = sum_list (map (\<lambda>l. case logData l of None \<Rightarrow> 0 | Some v \<Rightarrow> v)
                             (filter (isTransferFrom userWallet) (logs r)))
        \<and> (expectedCents * 10000 \<le> int paid \<or> 0 < txValue t))"
  using paidAmountRaw_sum [of userWallet _ 0]
  by (auto simp add: verifyTransaction_def Let_def split: option.splits)

text \<open>The claim as stated fails: a transaction with no Transfer log and a native value
  of 1 passes for 100 cents.\<close>

theorem native_value_passes_verification:
  "verifyTransaction (Some \<lparr> receiptStatus = StatusSuccess, logs = [] \<rparr>)
     (Some \<lparr> txFrom = ''0xAbC'', txValue = 1 \<rparr>) 100 ''0xabc'' = True
   \<and> paidAmountRaw ''0xabc'' [] 0 = Some 0"
  by (simp add: verifyTransaction_def toLowerCase_def toLowerChar_def)


section \<open>Concurrent callers\<close>

lemma list_all_updateOne:
  "list_all Q xs \<Longrightarrow> (\<And>x. P x \<Longrightarrow> Q x \<Longrightarrow> Q (f x)) \<Longrightarrow> list_all Q (updateOne P f xs)"
  by (induction xs) auto

lemma sum_updateOne:
  fixes g :: "'a \<Rightarrow> int"
  shows "find P xs = Some x \<Longrightarrow>
     sum_list (map g (updateOne P f xs)) = sum_list (map g xs) - g x + g (f x)"
  by (induction xs) (auto split: if_splits)

lemma sum_list_update_int:
  fixes g :: "'a \<Rightarrow> int"
  shows "i < length xs \<Longrightarrow>
     sum_list (map g (xs[i := y])) = sum_list (map g xs) - g (xs ! i) + g y"
proof (induction xs arbitrary: i)
  case Nil
  then show ?case by simp
next
  case (Cons x xs)
  then show ?case by (cases i) auto
qed

lemma find_SomeD: "find P xs = Some x \<Longrightarrow> P x \<and> x \<in> set xs"
  by (induction xs) (auto split: if_splits)

lemma balanceTotal_nonneg: "balancesNonNegative db \<Longrightarrow> 0 \<le> balanceTotal u db"
  unfolding balancesNonNegative_def balanceTotal_def
  by (induction "userCredits db" arbitrary: db) (auto intro!: sum_list_nonneg simp: list_all_iff)


lemma callStep_AtStart:
  assumes "pc c = AtStart" and "callStep t c db = (c', db')"
  shows "db' = db \<and> callOk c' \<and> pendingOf u c' = 0 \<and> pendingOf u c = 0"
  using assms
  by (auto simp add: callStep_def callOk_def pendingOf_def split: if_splits option.splits)

lemma callStep_Finished:
  assumes "pc c = Finished r" and "callStep t c db = (c', db')"
  shows "db' = db \<and> c' = c"
  using assms by (simp add: callStep_def)

lemma callStep_AtInsert:
  assumes "pc c = AtInsert tid d" and "callStep t c db = (c', db')" and "callOk c"
  shows "userCredits db' = userCredits db \<and> callOk c'
         \<and> pendingOf u c' = 0 \<and> pendingOf u c = (if callUser c = u then d else 0)
         \<and> usageTotal u db' = usageTotal u db + (if callUser c = u then d else 0)
         \<and> creditTotal u db' = creditTotal u db"
  using assms
  by (auto simp add: callStep_def callOk_def pendingOf_def usageTotal_def creditTotal_def
        insertOne_def usageRow_def)

lemma callStep_AtUpdate:
  assumes p: "pc c = AtUpdate tid d" and s: "callStep t c db = (c', db')"
      and nn: "balancesNonNegative db" and ok: "callOk c"
  shows "creditTransactions db' = creditTransactions db \<and> callOk c'
         \<and> balancesNonNegative db'
         \<and> pendingOf u c = 0
         \<and> balanceTotal u db' + pendingOf u c' = balanceTotal u db"
proof (cases "find (\<lambda>a. userId a = callUser c \<and> d \<le> balance a) (userCredits db)")
  case None
  then show ?thesis
    using p s nn by (auto simp add: callStep_def findOneAndUpdate_def callOk_def pendingOf_def)
next
  case (Some x)
  let ?P = "\<lambda>a. userId a = callUser c \<and> d \<le> balance a"
  let ?f = "deductUpdate d (clock t)"
  have x: "userId x = callUser c" "d \<le> balance x"
    using find_SomeD [OF Some] by simp_all
  have c': "c' = c\<lparr> pc := AtInsert tid d \<rparr>"
    and db': "db' = db\<lparr> userCredits := updateOne ?P ?f (userCredits db) \<rparr>"
    using p s Some by (simp_all add: callStep_def findOneAndUpdate_def)
  have d: "0 < d" "d \<le> callCost c" using ok p by (simp_all add: callOk_def)
  have "list_all (\<lambda>a. 0 \<le> balance a) (updateOne ?P ?f (userCredits db))"
  proof (rule list_all_updateOne)
    show "list_all (\<lambda>a. 0 \<le> balance a) (userCredits db)"
      using nn by (simp add: balancesNonNegative_def)
  next
    fix a :: UserCredit
    assume "userId a = callUser c \<and> d \<le> balance a" "0 \<le> balance a"
    then show "0 \<le> balance (?f a)" by simp
  qed
  then have nn': "balancesNonNegative db'"
    by (simp add: balancesNonNegative_def db')
  have "balanceTotal u db'
        = balanceTotal u db - (if userId x = u then balance x else 0)
          + (if userId (?f x) = u then balance (?f x) else 0)"
    unfolding balanceTotal_def db'
    using sum_updateOne [OF Some, of "\<lambda>a. if userId a = u then balance a else 0" ?f]
    by simp
  then have bal: "balanceTotal u db' = balanceTotal u db - (if callUser c = u then d else 0)"
    using x by simp
  show ?thesis
    using p d nn' bal by (simp add: c' db' callOk_def pendingOf_def)
qed



lemma usageTotal_cong:
  "creditTransactions db' = creditTransactions db \<Longrightarrow> usageTotal u db' = usageTotal u db"
  by (simp add: usageTotal_def)

lemma creditTotal_cong:
  "creditTransactions db' = creditTransactions db \<Longrightarrow> creditTotal u db' = creditTotal u db"
  by (simp add: creditTotal_def)

lemma balanceTotal_cong:
  "userCredits db' = userCredits db \<Longrightarrow> balanceTotal u db' = balanceTotal u db"
  by (simp add: balanceTotal_def)

lemma balancesNonNegative_cong:
  "userCredits db' = userCredits db \<Longrightarrow> balancesNonNegative db' = balancesNonNegative db"
  by (simp add: balancesNonNegative_def)

lemma callStep_effect:
  assumes s: "callStep t c db = (c', db')"
      and nn: "balancesNonNegative db" and ok: "callOk c"
  shows "balancesNonNegative db' \<and> callOk c'
         \<and> creditTotal u db' = creditTotal u db
         \<and> balanceTotal u db' + usageTotal u db' + pendingOf u c'
             = balanceTotal u db + usageTotal u db + pendingOf u c"
proof (cases "pc c")
  case AtStart
  have "db' = db" "callOk c'" "pendingOf u c' = 0" "pendingOf u c = 0"
    using callStep_AtStart [OF AtStart s, of u] by simp_all
  then show ?thesis using nn by simp
next
  case (AtUpdate tid d)
  have f: "creditTransactions db' = creditTransactions db" "callOk c'"
      "balancesNonNegative db'" "pendingOf u c = 0"
      "balanceTotal u db' + pendingOf u c' = balanceTotal u db"
    using callStep_AtUpdate [OF AtUpdate s nn ok, of u] by simp_all
  have "usageTotal u db' = usageTotal u db" "creditTotal u db' = creditTotal u db"
    using f(1) usageTotal_cong [of db' db u] creditTotal_cong [of db' db u] by simp_all
  then show ?thesis using f(2-5) by simp
next
  case (AtInsert tid d)
  have f: "userCredits db' = userCredits db" "callOk c'"
      "pendingOf u c' = 0" "pendingOf u c = (if callUser c = u then d else 0)"
      "usageTotal u db' = usageTotal u db + (if callUser c = u then d else 0)"
      "creditTotal u db' = creditTotal u db"
    using callStep_AtInsert [OF AtInsert s ok, of u] by simp_all
  have "balanceTotal u db' = balanceTotal u db" "balancesNonNegative db'"
    using f(1) nn balanceTotal_cong [of db' db u] balancesNonNegative_cong [of db' db]
    by simp_all
  then show ?thesis using f(2-6) by simp
next
  case (Finished r)
  have "db' = db" "c' = c"
    using callStep_Finished [OF Finished s] by simp_all
  then show ?thesis using nn ok by simp
qed


lemma list_all_update: "list_all P xs \<Longrightarrow> P y \<Longrightarrow> list_all P (xs[i := y])"
  by (induction xs arbitrary: i) (auto split: nat.splits)

lemma sysStep_effect:
  assumes nn: "balancesNonNegative (fst s)" and ok: "callsOk (snd s)"
  shows "balancesNonNegative (fst (sysStep s t)) \<and> callsOk (snd (sysStep s t))
         \<and> creditTotal u (fst (sysStep s t)) = creditTotal u (fst s)
         \<and> balanceTotal u (fst (sysStep s t)) + usageTotal u (fst (sysStep s t))
             + pendingTotal u (snd (sysStep s t))
             = balanceTotal u (fst s) + usageTotal u (fst s) + pendingTotal u (snd s)"
proof -
  obtain db cs where s: "s = (db, cs)" by (cases s)
  show ?thesis
  proof (cases "who t < length cs")
    case False
    then show ?thesis using nn ok by (simp add: sysStep_def s)
  next
    case True
    obtain c' db' where st: "callStep t (cs ! who t) db = (c', db')"
      by (cases "callStep t (cs ! who t) db")
    have next_s: "sysStep (db, cs) t = (db', cs[who t := c'])"
      using True st by (simp add: sysStep_def)
    have okc: "callOk (cs ! who t)"
      using ok True by (simp add: callsOk_def s list_all_length)
    have nn0: "balancesNonNegative db" using nn by (simp add: s)
    have e: "balancesNonNegative db'" "callOk c'" "creditTotal u db' = creditTotal u db"
        "balanceTotal u db' + usageTotal u db' + pendingOf u c'
           = balanceTotal u db + usageTotal u db + pendingOf u (cs ! who t)"
      using callStep_effect [OF st nn0 okc, of u] by simp_all
    have pp: "callsOk (cs[who t := c'])"
      using ok e(2) by (simp add: callsOk_def s list_all_update)
    have pt: "pendingTotal u (cs[who t := c'])
                = pendingTotal u cs - pendingOf u (cs ! who t) + pendingOf u c'"
      unfolding pendingTotal_def by (rule sum_list_update_int [OF True])
    show ?thesis
      unfolding s next_s using e(1,3,4) pp pt by simp
  qed
qed

lemma runSchedule_effect:
  assumes "balancesNonNegative (fst s)" and "callsOk (snd s)"
  shows "balancesNonNegative (fst (runSchedule sched s))
         \<and> callsOk (snd (runSchedule sched s))
         \<and> creditTotal u (fst (runSchedule sched s)) = creditTotal u (fst s)
         \<and> balanceTotal u (fst (runSchedule sched s)) + usageTotal u (fst (runSchedule sched s))
             + pendingTotal u (snd (runSchedule sched s))
             = balanceTotal u (fst s) + usageTotal u (fst s) + pendingTotal u (snd s)"
  using assms
proof (induction sched arbitrary: s)
  case Nil
  then show ?case by (simp add: runSchedule_def)
next
  case (Cons t sched)
  have step: "balancesNonNegative (fst (sysStep s t))" "callsOk (snd (sysStep s t))"
      "creditTotal u (fst (sysStep s t)) = creditTotal u (fst s)"
      "balanceTotal u (fst (sysStep s t)) + usageTotal u (fst (sysStep s t))
         + pendingTotal u (snd (sysStep s t))
         = balanceTotal u (fst s) + usageTotal u (fst s) + pendingTotal u (snd s)"
    using sysStep_effect [OF Cons.prems, where t = t and u = u] by simp_all
  have r: "runSchedule (t # sched) s = runSchedule sched (sysStep s t)"
    by (simp add: runSchedule_def)
  show ?case
    using Cons.IH [OF step(1,2)] step(3,4) by (simp add: r)
qed

lemma pendingTotal_nonneg: "callsOk cs \<Longrightarrow> 0 \<le> pendingTotal u cs"
  unfolding callsOk_def pendingTotal_def
  by (induction cs) (auto simp add: callOk_def pendingOf_def split: Pc.splits)

lemma pendingTotal_AtStart: "list_all (\<lambda>c. pc c = AtStart) cs \<Longrightarrow> pendingTotal u cs = 0"
  unfolding pendingTotal_def
  by (induction cs) (auto simp add: pendingOf_def)

lemma callsOk_AtStart: "list_all (\<lambda>c. pc c = AtStart) cs \<Longrightarrow> callsOk cs"
  unfolding callsOk_def
  by (induction cs) (auto simp add: callOk_def)

text \<open>
  C1. Any number of \<^verbatim>\<open>processPayment\<close> calls, for any identities, costs and
  preferences, interleaved in any order at their store operations: when every balance
  starts non-negative and, for every identity, balance plus confirmed usage starts within
  the confirmed credit-increasing amounts, then in every state reached every balance is
  non-negative, confirmed usage never exceeds the confirmed credit-increasing amounts,
  and what has left the balances is exactly what the USAGE rows and the deductions still
  to be recorded add up to. Every amount deducted is positive and at most the call's cost.
\<close>

theorem concurrent_deductions_keep_balance:
  assumes nn: "balancesNonNegative db0"
      and start: "list_all (\<lambda>c. pc c = AtStart) cs0"
      and ledger: "\<forall>u. balanceTotal u db0 + usageTotal u db0 \<le> creditTotal u db0"
  shows "balancesNonNegative (fst (runSchedule sched (db0, cs0)))
         \<and> (\<forall>u. usageTotal u (fst (runSchedule sched (db0, cs0)))
                  \<le> creditTotal u (fst (runSchedule sched (db0, cs0))))
         \<and> (\<forall>u. balanceTotal u (fst (runSchedule sched (db0, cs0)))
                  + usageTotal u (fst (runSchedule sched (db0, cs0)))
                  + pendingTotal u (snd (runSchedule sched (db0, cs0)))
                = balanceTotal u db0 + usageTotal u db0)
         \<and> callsOk (snd (runSchedule sched (db0, cs0)))"
proof -
  let ?s = "runSchedule sched (db0, cs0)"
  have pp0: "callsOk (snd (db0, cs0))"
    using start by (simp add: callsOk_AtStart)
  have nn0: "balancesNonNegative (fst (db0, cs0))" using nn by simp
  have nn': "balancesNonNegative (fst ?s)" and pp': "callsOk (snd ?s)"
    using runSchedule_effect [OF nn0 pp0, where sched = sched] by simp_all
  have eq: "creditTotal u (fst ?s) = creditTotal u db0
            \<and> balanceTotal u (fst ?s) + usageTotal u (fst ?s) + pendingTotal u (snd ?s)
                = balanceTotal u db0 + usageTotal u db0" for u
    using runSchedule_effect [OF nn0 pp0, where sched = sched and u = u]
      pendingTotal_AtStart [OF start, of u]
    by simp
  have le: "usageTotal u (fst ?s) \<le> creditTotal u (fst ?s)" for u
    using eq [of u] balanceTotal_nonneg [OF nn', of u] pendingTotal_nonneg [OF pp', of u]
      ledger
    by (auto dest: spec [where x = u])
  show ?thesis using nn' pp' le eq by blast
qed


lemma race_result:
  "runSchedule race (db60, twoCalls)
     = (\<lparr> userCredits = [\<lparr> userId = ''0xabc'', balance = 0, lifetimePurchased = 60,
                             lifetimeUsed = 60, updatedAt = 6 \<rparr>],
          creditTransactions = [purchaseRow ''p1'' ''0xabc'' 60 ''0xfeed'' 0,
                                usageRow ''a1'' ''0xabc'' 50 50 7,
                                usageRow ''b3'' ''0xabc'' 10 50 8] \<rparr>,
        [\<lparr> callCost = 50, callUser = ''0xabc'', callPref = CREDITS_FIRST,
           pc = Finished \<lparr> remainingCostCents = 0, creditsDeducted = 50,
                           transactionId = Some ''a1'' \<rparr> \<rparr>,
         \<lparr> callCost = 50, callUser = ''0xabc'', callPref = CREDITS_FIRST,
           pc = Finished \<lparr> remainingCostCents = 40, creditsDeducted = 10,
                           transactionId = Some ''b3'' \<rparr> \<rparr>])"
  by (simp add: runSchedule_def race_def twoCalls_def db60_def sysStep_def callStep_def
        findOne_def findOneAndUpdate_def deductUpdate_def insertOne_def)

theorem concurrent_deductions_keep_balance_witness:
  "balancesNonNegative db60
   \<and> list_all (\<lambda>c. pc c = AtStart) twoCalls
   \<and> balancesNonNegative (fst (runSchedule race (db60, twoCalls)))
   \<and> usageTotal ''0xabc'' (fst (runSchedule race (db60, twoCalls))) = 60
   \<and> creditTotal ''0xabc'' (fst (runSchedule race (db60, twoCalls))) = 60
   \<and> getUserCredits ''0xabc'' (fst (runSchedule race (db60, twoCalls))) = 0"
proof -
  have a: "balancesNonNegative db60"
    by (simp add: balancesNonNegative_def db60_def)
  have b: "list_all (\<lambda>c. pc c = AtStart) twoCalls"
    by (simp add: twoCalls_def)
  have c: "\<forall>u. balanceTotal u db60 + usageTotal u db60 \<le> creditTotal u db60"
    by (simp add: balanceTotal_def usageTotal_def creditTotal_def db60_def purchaseRow_def)
  have d: "usageTotal ''0xabc'' (fst (runSchedule race (db60, twoCalls))) = 60
           \<and> creditTotal ''0xabc'' (fst (runSchedule race (db60, twoCalls))) = 60
           \<and> getUserCredits ''0xabc'' (fst (runSchedule race (db60, twoCalls))) = 0"
    by (simp add: race_result usageTotal_def creditTotal_def getUserCredits_def findOne_def
          purchaseRow_def usageRow_def)
  show ?thesis
    using concurrent_deductions_keep_balance [OF a b c, of race] a b d by simp
qed


section \<open>Further properties\<close>

lemma findOneAndUpdate_first:
  assumes "find (\<lambda>a. userId a = u) xs = Some a" and "d \<le> balance a"
  shows "findOneAndUpdate (\<lambda>a. userId a = u \<and> d \<le> balance a) f xs
           = Some (f a, updateOne (\<lambda>a. userId a = u \<and> d \<le> balance a) f xs)"
  using find_conj_guard [OF assms(1), of "\<lambda>a. d \<le> balance a"] assms(2)
  by (simp add: findOneAndUpdate_def)

text \<open>
  X1. The two models of \<^verbatim>\<open>processPayment\<close> agree: a call whose three store operations
  run with no other call in between ends with the result and the store of
  \<^verbatim>\<open>processPayment\<close>, and \<^verbatim>\<open>processPayment\<close> returns.
\<close>

theorem lone_call_is_processPayment:
  assumes w: "who t1 = 0" "who t2 = 0" "who t3 = 0"
      and k: "clock t2 = now" "clock t3 = now" and i: "uuid 0 = drawn t1"
      and p: "pc c = AtStart"
  shows "\<exists>r db'. processPayment uuid now (callCost c) (callUser c) (callPref c) db = Some (r, db')
           \<and> runSchedule [t1, t2, t3] (db, [c]) = (db', [c\<lparr> pc := Finished r \<rparr>])"
proof (cases "callCost c \<le> 0 \<or> callPref c = PREF_DIRECT_USDC")
  case True
  then show ?thesis using w p
    by (subst processPayment.simps)
       (auto simp add: runSchedule_def sysStep_def callStep_def)
next
  case False
  note easy = this
  show ?thesis
  proof (cases "find (\<lambda>a. userId a = callUser c) (userCredits db)")
    case None
    then show ?thesis using w p easy
      by (subst processPayment.simps)
         (auto simp add: runSchedule_def sysStep_def callStep_def findOne_def)
  next
    case (Some a)
    show ?thesis
    proof (cases "balance a \<le> 0")
      case True
      then show ?thesis using w p easy Some
        by (subst processPayment.simps)
           (auto simp add: runSchedule_def sysStep_def callStep_def findOne_def)
    next
      case False
      let ?d = "min (balance a) (callCost c)"
      have u: "findOneAndUpdate (\<lambda>x. userId x = callUser c \<and> ?d \<le> balance x)
                 (deductUpdate ?d now) (userCredits db)
               = Some (deductUpdate ?d now a,
                       updateOne (\<lambda>x. userId x = callUser c \<and> ?d \<le> balance x)
                         (deductUpdate ?d now) (userCredits db))"
        by (rule findOneAndUpdate_first [OF Some]) simp
      show ?thesis using w k i p easy Some False u
        by (subst processPayment.simps)
           (auto simp add: runSchedule_def sysStep_def callStep_def findOne_def Let_def)
    qed
  qed
qed


theorem lone_call_is_processPayment_witness:
  "runSchedule [\<lparr> who = 0, drawn = ''u1'', clock = 0 \<rparr>,
                \<lparr> who = 0, drawn = ''u2'', clock = 1000 \<rparr>,
                \<lparr> who = 0, drawn = ''u3'', clock = 1000 \<rparr>]
     (dbSix, [\<lparr> callCost = 10, callUser = ''0xabc'', callPref = CREDITS_FIRST, pc = AtStart \<rparr>])
   = (dbSixSpent,
      [\<lparr> callCost = 10, callUser = ''0xabc'', callPref = CREDITS_FIRST,
         pc = Finished \<lparr> remainingCostCents = 4, creditsDeducted = 6,
                         transactionId = Some ''u1'' \<rparr> \<rparr>])"
  using lone_call_is_processPayment
          [where ?t1.0 = "\<lparr> who = 0, drawn = ''u1'', clock = 0 \<rparr>"
             and ?t2.0 = "\<lparr> who = 0, drawn = ''u2'', clock = 1000 \<rparr>"
             and ?t3.0 = "\<lparr> who = 0, drawn = ''u3'', clock = 1000 \<rparr>"
             and now = 1000 and uuid = "\<lambda>k. ''u1''" and db = dbSix
             and c = "\<lparr> callCost = 10, callUser = ''0xabc'', callPref = CREDITS_FIRST,
                       pc = AtStart \<rparr>"]
  by (simp add: processPayment_dbSix)

lemma processPayment_deducted:
  assumes run: "processPayment uuid now c u pref db = Some (r, db1)"
      and tid: "transactionId r = Some tid"
  shows "\<exists>a. find (\<lambda>x. userId x = u) (userCredits db) = Some a \<and> 0 < balance a \<and> 0 < c
           \<and> tid = uuid 0
           \<and> creditsDeducted r = min (balance a) c
           \<and> userCredits db1
               = updateOne (\<lambda>x. userId x = u \<and> min (balance a) c \<le> balance x)
                   (deductUpdate (min (balance a) c) now) (userCredits db)
           \<and> creditTransactions db1
               = creditTransactions db @ [usageRow tid u (min (balance a) c) c now]"
proof (cases "c \<le> 0 \<or> pref = PREF_DIRECT_USDC")
  case True
  then show ?thesis using run tid
    by (subst (asm) processPayment.simps) (auto split: if_splits)
next
  case False
  note easy = this
  show ?thesis
  proof (cases "find (\<lambda>x. userId x = u) (userCredits db)")
    case None
    then show ?thesis using run tid easy
      by (subst (asm) processPayment.simps) (auto simp add: findOne_def)
  next
    case (Some a)
    show ?thesis
    proof (cases "balance a \<le> 0")
      case True
      then show ?thesis using run tid easy Some
        by (subst (asm) processPayment.simps) (auto simp add: findOne_def)
    next
      case False
      let ?d = "min (balance a) c"
      have u: "findOneAndUpdate (\<lambda>x. userId x = u \<and> ?d \<le> balance x)
                 (deductUpdate ?d now) (userCredits db)
               = Some (deductUpdate ?d now a,
                       updateOne (\<lambda>x. userId x = u \<and> ?d \<le> balance x)
                         (deductUpdate ?d now) (userCredits db))"
        by (rule findOneAndUpdate_first [OF Some]) simp
      have "processPayment uuid now c u pref db
            = Some (\<lparr> remainingCostCents = c - ?d, creditsDeducted = ?d,
                      transactionId = Some (uuid 0) \<rparr>,
                    db\<lparr> userCredits := updateOne (\<lambda>x. userId x = u \<and> ?d \<le> balance x)
                                          (deductUpdate ?d now) (userCredits db),
                        creditTransactions :=
                          insertOne (usageRow (uuid 0) u ?d c now) (creditTransactions db) \<rparr>)"
        using easy Some False u
        by (subst processPayment.simps) (simp add: findOne_def Let_def)
      then show ?thesis using run tid Some False easy
        by (auto simp add: insertOne_def)
    qed
  qed
qed

lemma find_None_weaken:
  "find P xs = None \<Longrightarrow> (\<And>x. Q x \<Longrightarrow> P x) \<Longrightarrow> find Q xs = None"
  by (induction xs) (auto split: if_splits)

text \<open>
  X3. \<^verbatim>\<open>refundCredits\<close> undoes a deduction: after a \<^verbatim>\<open>processPayment\<close> that
  deducted credits under a transaction id that no earlier row carries or references, a
  refund of that id answers \<^verbatim>\<open>true\<close>, brings the balance back to what it was before
  the deduction and appends one REFUND row of the deducted amount.
\<close>

theorem refund_restores_deduction:
  assumes run: "processPayment uuid now c u CREDITS_FIRST db = Some (r, db1)"
      and tid: "transactionId r = Some tid"
      and fresh: "find (\<lambda>t. txId t = tid) (creditTransactions db) = None"
      and unreferenced: "find (\<lambda>t. metaOriginalTxId t = Some tid) (creditTransactions db) = None"
  shows "\<exists>db2. refundCredits rid now2 tid db1 = (True, db2)
           \<and> getUserCredits u db2 = getUserCredits u db
           \<and> creditTransactions db2
               = creditTransactions db1 @ [refundRow rid u (creditsDeducted r) tid now2]"
proof -
  obtain a where a: "find (\<lambda>x. userId x = u) (userCredits db) = Some a" "0 < balance a" "0 < c"
      and d: "creditsDeducted r = min (balance a) c"
      and c1: "userCredits db1
                 = updateOne (\<lambda>x. userId x = u \<and> min (balance a) c \<le> balance x)
                     (deductUpdate (min (balance a) c) now) (userCredits db)"
      and t1: "creditTransactions db1
                 = creditTransactions db @ [usageRow tid u (min (balance a) c) c now]"
    using processPayment_deducted [OF run tid] by blast
  let ?d = "min (balance a) c"
  let ?row = "usageRow tid u ?d c now"
  let ?restore = "\<lambda>x. x\<lparr> balance := balance x + ?d, updatedAt := now2 \<rparr>"
  have dpos: "0 < ?d" using a by simp
  have nu: "find (\<lambda>t. txId t = tid \<and> txType t = USAGE \<and> status t = CONFIRMED)
              (creditTransactions db) = None"
    by (rule find_None_weaken [OF fresh]) simp
  have nr: "find (\<lambda>t. txType t = REFUND \<and> metaOriginalTxId t = Some tid)
              (creditTransactions db) = None"
    by (rule find_None_weaken [OF unreferenced]) simp
  have r1: "find (\<lambda>t. txId t = tid \<and> txType t = USAGE \<and> status t = CONFIRMED)
              (creditTransactions db1) = Some ?row"
    using nu by (simp add: t1 find_append_None usageRow_def)
  have r2: "find (\<lambda>t. txType t = REFUND \<and> metaOriginalTxId t = Some tid)
              (creditTransactions db1) = None"
    using nr by (simp add: t1 find_append_None usageRow_def)
  have am: "\<bar>amount ?row\<bar> = ?d" "txUserId ?row = u"
    using dpos by (simp_all add: usageRow_def)
  have ref: "refundCredits rid now2 tid db1
             = (True,
                db1\<lparr> userCredits := updateOne (\<lambda>x. userId x = u) ?restore (userCredits db1),
                     creditTransactions :=
                       creditTransactions db1 @ [refundRow rid u ?d tid now2] \<rparr>)"
    using r1 r2 am by (simp add: refundCredits_def findOne_def Let_def insertOne_def)
  have f1: "find (\<lambda>x. userId x = u) (userCredits db1) = Some (deductUpdate ?d now a)"
    unfolding c1 by (rule find_updateOne_guard [OF a(1)]) (use find_SomeD [OF a(1)] in simp_all)
  have f2: "find (\<lambda>x. userId x = u) (updateOne (\<lambda>x. userId x = u) ?restore (userCredits db1))
            = Some (?restore (deductUpdate ?d now a))"
    by (rule find_updateOne_same [OF f1]) (use find_SomeD [OF a(1)] in simp)
  have bal: "getUserCredits u
               (db1\<lparr> userCredits := updateOne (\<lambda>x. userId x = u) ?restore (userCredits db1),
                     creditTransactions :=
                       creditTransactions db1 @ [refundRow rid u ?d tid now2] \<rparr>)
             = getUserCredits u db"
    using f2 a(1) by (simp add: getUserCredits_def findOne_def)
  show ?thesis
    using ref bal d by simp
qed

theorem refund_restores_deduction_witness:
  "processPayment (\<lambda>k. ''u1'') 1000 10 ''0xabc'' CREDITS_FIRST dbSix
     = Some (\<lparr> remainingCostCents = 4, creditsDeducted = 6, transactionId = Some ''u1'' \<rparr>,
             dbSixSpent)
   \<and> getUserCredits ''0xabc'' dbSix = 6
   \<and> getUserCredits ''0xabc'' dbSixSpent = 0
   \<and> (\<exists>db2. refundCredits ''r1'' 2000 ''u1'' dbSixSpent = (True, db2)
          \<and> getUserCredits ''0xabc'' db2 = 6
          \<and> creditTransactions db2
              = creditTransactions dbSixSpent @ [refundRow ''r1'' ''0xabc'' 6 ''u1'' 2000])"
proof -
  have f: "find (\<lambda>t. txId t = ''u1'') (creditTransactions dbSix) = None"
          "find (\<lambda>t. metaOriginalTxId t = Some ''u1'') (creditTransactions dbSix) = None"
    by (simp_all add: dbSix_def purchaseRow_def metaOriginalTxId_def)
  have g: "getUserCredits ''0xabc'' dbSix = 6" "getUserCredits ''0xabc'' dbSixSpent = 0"
    by (simp_all add: getUserCredits_def findOne_def dbSix_def dbSixSpent_def)
  show ?thesis
    using refund_restores_deduction [OF processPayment_dbSix _ f, of "''r1''" 2000] g
    by (simp add: processPayment_dbSix)
qed

text \<open>
  X2. On the example tier (start 10, floor 5, schedule 10, 7, 5) an identity quoted 10 who
  complains four times, the oracle answering \<^verbatim>\<open>discount\<close> each time, is priced 10 after
  the first complaint, then 7, then 5, then 5.
\<close>

theorem four_complaints_on_example_tier:
  "map_option cents (applyOps exampleTier (take 1 complaints) quoted ''0xabc'') = Some 10
   \<and> map_option cents (applyOps exampleTier (take 2 complaints) quoted ''0xabc'') = Some 7
   \<and> map_option cents (applyOps exampleTier (take 3 complaints) quoted ''0xabc'') = Some 5
   \<and> map_option cents (applyOps exampleTier (take 4 complaints) quoted ''0xabc'') = Some 5"
  by (simp add: applyOps_def complaints_def quoted_def exampleTier_def runNegotiationAgent_def
      getCurrentPrice_def incrementNegotiationAttempts_def updatePrice_def Let_def numeral_eq_Suc)


end
